theory Spec2Isabelle
  imports Complex_Main "HOL-Library.Sublist" "HOL-Library.Multiset" "HOL-Library.Product_Lexorder"
    "HOL-Library.List_Lexorder" "HOL-Library.Char_ord"
begin

section \<open>The data-cleaning pipeline of the startup funding dashboard\<close>

text \<open>
  A shallow embedding of \<^verbatim>\<open>dashboard.py\<close>: the function \<^verbatim>\<open>load_data\<close> with its helpers
  \<^verbatim>\<open>clean_amount\<close> and \<^verbatim>\<open>clean_date\<close>, the row filter of \<^verbatim>\<open>main\<close>, and the data
  frames computed by \<^verbatim>\<open>plot_funding_trend\<close> and \<^verbatim>\<open>plot_top_cities\<close>.

  Conventions of the model:
  \<^item> The file is decoded as ISO-8859-1, so every character of a cell is a code point
    below 256, one \<^typ>\<open>char\<close>, and a cell text is a \<^typ>\<open>string\<close>. White space and
    case are those of Python on these code points. \<^verbatim>\<open>str.title\<close> can leave the range
    (\<^verbatim>\<open>\xff\<close> becomes U+0178), so the cleaned texts are lists of code points.
  \<^item> A float is a \<open>pyfloat\<close>: a rational that binary64 represents, an infinity or NaN.
    Every operation rounds its exact result to binary64, to nearest and ties to even.
    The two zeros are one value; no operation of the program tells them apart.
  \<^item> A data frame is a list of rows, each with its index label, in row order. pandas is
    taken at version 2: a column of dates is stored as nanosecond timestamps, and a
    column that cannot be stored so has no \<^verbatim>\<open>.dt\<close> accessor.
\<close>

subsection \<open>Python strings\<close>

definition is_space :: "char \<Rightarrow> bool" where
  \<comment> \<open>\<^verbatim>\<open>str.isspace\<close> below 256: tab, line feed, vertical tab, form feed, carriage return,
      the separators 28 to 31, the blank, next line (133) and the no-break space (160).\<close>
  "is_space c \<longleftrightarrow>
     c \<in> set [CHR 0x09, CHR 0x0A, CHR 0x0B, CHR 0x0C, CHR 0x0D,
               CHR 0x1C, CHR 0x1D, CHR 0x1E, CHR 0x1F, CHR 0x20, CHR 0x85, CHR 0xA0]"

definition is_digit :: "char \<Rightarrow> bool" where
  "is_digit c \<longleftrightarrow> c \<in> set ''0123456789''"

definition upper_letters :: string where
  \<comment> \<open>the capital letters below 256, each at the position of its small letter below\<close>
  "upper_letters =
     ''ABCDEFGHIJKLMNOPQRSTUVWXYZ'' @
     [CHR 0xC0, CHR 0xC1, CHR 0xC2, CHR 0xC3, CHR 0xC4, CHR 0xC5, CHR 0xC6, CHR 0xC7,
      CHR 0xC8, CHR 0xC9, CHR 0xCA, CHR 0xCB, CHR 0xCC, CHR 0xCD, CHR 0xCE, CHR 0xCF,
      CHR 0xD0, CHR 0xD1, CHR 0xD2, CHR 0xD3, CHR 0xD4, CHR 0xD5, CHR 0xD6,
      CHR 0xD8, CHR 0xD9, CHR 0xDA, CHR 0xDB, CHR 0xDC, CHR 0xDD, CHR 0xDE]"

definition lower_letters :: string where
  "lower_letters =
     ''abcdefghijklmnopqrstuvwxyz'' @
     [CHR 0xE0, CHR 0xE1, CHR 0xE2, CHR 0xE3, CHR 0xE4, CHR 0xE5, CHR 0xE6, CHR 0xE7,
      CHR 0xE8, CHR 0xE9, CHR 0xEA, CHR 0xEB, CHR 0xEC, CHR 0xED, CHR 0xEE, CHR 0xEF,
      CHR 0xF0, CHR 0xF1, CHR 0xF2, CHR 0xF3, CHR 0xF4, CHR 0xF5, CHR 0xF6,
      CHR 0xF8, CHR 0xF9, CHR 0xFA, CHR 0xFB, CHR 0xFC, CHR 0xFD, CHR 0xFE]"

definition is_cased :: "char \<Rightarrow> bool" where
  \<comment> \<open>The cased characters below 256: the letters above, and the feminine and masculine
      ordinal indicators (170, 186), the micro sign (181), the sharp s (223) and the y with
      diaeresis (255), which are lower case without a capital below 256.\<close>
  "is_cased c \<longleftrightarrow>
     c \<in> set upper_letters \<or> c \<in> set lower_letters \<or>
     c \<in> set [CHR 0xAA, CHR 0xB5, CHR 0xBA, CHR 0xDF, CHR 0xFF]"

definition lower_char :: "char \<Rightarrow> char" where
  \<comment> \<open>the lower case of a character; it stays below 256\<close>
  "lower_char c = (case map_of (zip upper_letters lower_letters) c of None \<Rightarrow> c | Some d \<Rightarrow> d)"

type_synonym ustring = "int list"

definition ustr :: "string \<Rightarrow> ustring" where
  \<comment> \<open>a string as its code points\<close>
  "ustr s = map of_char s"

definition title_char :: "char \<Rightarrow> ustring" where
  \<comment> \<open>The title case of a character: the capital of a small letter; \<^verbatim>\<open>Ss\<close> for the sharp
      s, U+0178 for the y with diaeresis and U+039C for the micro sign; any other character
      is kept.\<close>
  "title_char c =
     (if c = CHR 0xDF then [0x53, 0x73]
      else if c = CHR 0xFF then [0x178]
      else if c = CHR 0xB5 then [0x39C]
      else (case map_of (zip lower_letters upper_letters) c of
              None \<Rightarrow> [of_char c]
            | Some d \<Rightarrow> [of_char d]))"

definition py_lower :: "string \<Rightarrow> string" where
  \<comment> \<open>\<^verbatim>\<open>s.lower()\<close>\<close>
  "py_lower s = map lower_char s"

definition py_strip :: "string \<Rightarrow> string" where
  \<comment> \<open>\<^verbatim>\<open>s.strip()\<close>\<close>
  "py_strip s = rev (dropWhile is_space (rev (dropWhile is_space s)))"

definition remove_char :: "char \<Rightarrow> string \<Rightarrow> string" where
  \<comment> \<open>\<^verbatim>\<open>s.replace(c, '')\<close> for a one-character \<^verbatim>\<open>c\<close>\<close>
  "remove_char c s = filter (\<lambda>d. d \<noteq> c) s"

fun py_in :: "string \<Rightarrow> string \<Rightarrow> bool" where
  \<comment> \<open>\<^verbatim>\<open>u in s\<close>: \<^verbatim>\<open>u\<close> occurs in \<^verbatim>\<open>s\<close> as a contiguous run\<close>
  "py_in u [] = (u = [])"
| "py_in u (c # s) = (prefix u (c # s) \<or> py_in u s)"

fun py_title_from :: "bool \<Rightarrow> string \<Rightarrow> ustring" where
  \<comment> \<open>The loop of \<^verbatim>\<open>str.title\<close>: a character after a cased one is lower-cased, any
      other is title-cased; the flag is whether the previous character is cased.\<close>
  "py_title_from prev [] = []"
| "py_title_from prev (c # s) =
     (if prev then [of_char (lower_char c)] else title_char c) @ py_title_from (is_cased c) s"

definition py_title :: "string \<Rightarrow> ustring" where
  \<comment> \<open>\<^verbatim>\<open>s.title()\<close>\<close>
  "py_title s = py_title_from False s"

subsection \<open>Floats\<close>

datatype pyfloat = NaN | NInf | Fin rat | PInf

fun isnan :: "pyfloat \<Rightarrow> bool" where
  "isnan NaN = True"
| "isnan _ = False"

fun fless :: "pyfloat \<Rightarrow> pyfloat \<Rightarrow> bool" where
  \<comment> \<open>\<^verbatim>\<open>a < b\<close>; every comparison with NaN is false\<close>
  "fless NaN _ = False"
| "fless _ NaN = False"
| "fless _ NInf = False"
| "fless NInf _ = True"
| "fless PInf _ = False"
| "fless (Fin a) PInf = True"
| "fless (Fin a) (Fin b) = (a < b)"

fun fle :: "pyfloat \<Rightarrow> pyfloat \<Rightarrow> bool" where
  \<comment> \<open>\<^verbatim>\<open>a <= b\<close>\<close>
  "fle NaN _ = False"
| "fle _ NaN = False"
| "fle NInf _ = True"
| "fle _ PInf = True"
| "fle PInf _ = False"
| "fle (Fin a) NInf = False"
| "fle (Fin a) (Fin b) = (a \<le> b)"

function pow2 :: "int \<Rightarrow> rat" where
  \<comment> \<open>two to the power \<open>e\<close>, by squaring\<close>
  "pow2 e =
     (if e = 0 then 1
      else if e < 0 then 1 / pow2 (- e)
      else if even e then (let h = pow2 (e div 2) in h * h)
      else 2 * pow2 (e - 1))"
  by pat_completeness auto
termination
  by (relation "measure (\<lambda>e. if e < 0 then nat (1 - 2 * e) else nat (2 * e))") auto

declare pow2.simps [simp del]

function bit_length :: "int \<Rightarrow> int" where
  \<comment> \<open>the number of binary digits of a positive number\<close>
  "bit_length n = (if n \<le> 0 then 0 else 1 + bit_length (n div 2))"
  by pat_completeness auto
termination
  by (relation "measure nat") auto

declare bit_length.simps [simp del]

definition floor_log2 :: "rat \<Rightarrow> int" where
  \<comment> \<open>for a positive \<open>q\<close>, the exponent \<open>e\<close> with \<open>2 ^ e \<le> q < 2 ^ (e + 1)\<close>\<close>
  "floor_log2 q =
     (let e = bit_length (fst (quotient_of q)) - bit_length (snd (quotient_of q))
      in if pow2 e \<le> q then e else e - 1)"

definition round_half_even :: "rat \<Rightarrow> int" where
  \<comment> \<open>the nearest integer, the even one of two that are equally near\<close>
  "round_half_even x =
     (let n = \<lfloor>x\<rfloor>; r = x - of_int n
      in if r < 1 / 2 then n else if 1 / 2 < r then n + 1 else if even n then n else n + 1)"

definition round64 :: "rat \<Rightarrow> pyfloat" where
  \<comment> \<open>The binary64 value of a rational. With \<open>e\<close> the exponent of \<open>\<bar>q\<bar>\<close>, not below -1022,
      \<open>\<bar>q\<bar>\<close> is rounded to a multiple \<open>m\<close> of \<open>2 ^ (e - 52)\<close>, so to 53 binary digits, or
      to fewer below \<open>2 ^ -1022\<close>. The result is an infinity when it reaches \<open>2 ^ 1024\<close>:
      when \<open>e\<close> is above 1023, or is 1023 and \<open>m\<close> is rounded up to \<open>2 ^ 53\<close>.\<close>
  "round64 q =
     (if q = 0 then Fin 0
      else
        (let a = \<bar>q\<bar>;
             e = max (floor_log2 a) (- 1022);
             ulp = pow2 (e - 52);
             m = round_half_even (a / ulp)
         in if 1023 < e \<or> (e = 1023 \<and> 2 ^ 53 \<le> m) then (if q < 0 then NInf else PInf)
            else Fin (if q < 0 then - (of_int m * ulp) else of_int m * ulp)))"

fun fneg :: "pyfloat \<Rightarrow> pyfloat" where
  "fneg NaN = NaN"
| "fneg NInf = PInf"
| "fneg PInf = NInf"
| "fneg (Fin a) = Fin (- a)"

fun fadd :: "pyfloat \<Rightarrow> pyfloat \<Rightarrow> pyfloat" where
  \<comment> \<open>\<^verbatim>\<open>a + b\<close>\<close>
  "fadd NaN _ = NaN"
| "fadd _ NaN = NaN"
| "fadd PInf NInf = NaN"
| "fadd NInf PInf = NaN"
| "fadd PInf _ = PInf"
| "fadd _ PInf = PInf"
| "fadd NInf _ = NInf"
| "fadd _ NInf = NInf"
| "fadd (Fin a) (Fin b) = round64 (a + b)"

definition fsub :: "pyfloat \<Rightarrow> pyfloat \<Rightarrow> pyfloat" where
  \<comment> \<open>\<^verbatim>\<open>a - b\<close>\<close>
  "fsub a b = fadd a (fneg b)"

fun fdiv_million :: "pyfloat \<Rightarrow> pyfloat" where
  \<comment> \<open>\<^verbatim>\<open>a / 1_000_000\<close>\<close>
  "fdiv_million (Fin a) = round64 (a / 1000000)"
| "fdiv_million a = a"


subsection \<open>\<^verbatim>\<open>float(x)\<close> of a text\<close>

definition digit_val :: "char \<Rightarrow> int" where
  "digit_val c = of_char c - 48"

definition int_of_digits :: "string \<Rightarrow> int" where
  \<comment> \<open>the number that a run of decimal digits denotes\<close>
  "int_of_digits ds = foldl (\<lambda>a c. 10 * a + digit_val c) 0 ds"

definition is_float_space :: "char \<Rightarrow> bool" where
  \<comment> \<open>The white space that \<^verbatim>\<open>float\<close> skips around a number: that of C, and the white
      space above 127. The separators 28 to 31 are not skipped.\<close>
  "is_float_space c \<longleftrightarrow>
     c \<in> set [CHR 0x09, CHR 0x0A, CHR 0x0B, CHR 0x0C, CHR 0x0D, CHR 0x20, CHR 0x85, CHR 0xA0]"

definition float_strip :: "string \<Rightarrow> string" where
  "float_strip s = rev (dropWhile is_float_space (rev (dropWhile is_float_space s)))"

fun underscores_ok :: "char \<Rightarrow> string \<Rightarrow> bool" where
  \<comment> \<open>Digit grouping: an underscore stands only between two digits. The first argument is
      the previous character.\<close>
  "underscores_ok prev [] = (prev \<noteq> CHR ''_'')"
| "underscores_ok prev (c # s) =
     ((if c = CHR ''_'' then is_digit prev else (prev = CHR ''_'' \<longrightarrow> is_digit c))
      \<and> underscores_ok c s)"

definition scale10 :: "rat \<Rightarrow> bool \<Rightarrow> int \<Rightarrow> rat" where
  \<comment> \<open>\<open>q\<close> times ten to the power \<open>e\<close> or \<open>-e\<close>\<close>
  "scale10 q neg e = (if neg then q / 10 ^ nat e else q * 10 ^ nat e)"

definition parse_exponent :: "string \<Rightarrow> (bool \<times> int) option" where
  \<comment> \<open>What follows the mantissa: nothing, or \<^verbatim>\<open>e\<close>, an optional sign and digits.\<close>
  "parse_exponent s =
     (case s of
        [] \<Rightarrow> Some (False, 0)
      | c # r \<Rightarrow>
          if c = CHR ''e'' \<or> c = CHR ''E'' then
            (let neg = (case r of [] \<Rightarrow> False | d # _ \<Rightarrow> d = CHR ''-'');
                 ds = (case r of [] \<Rightarrow> [] | d # r' \<Rightarrow> if d = CHR ''-'' \<or> d = CHR ''+'' then r' else r)
             in if ds \<noteq> [] \<and> list_all is_digit ds then Some (neg, int_of_digits ds) else None)
          else None)"

definition parse_decimal :: "string \<Rightarrow> rat option" where
  \<comment> \<open>The exact value of an unsigned decimal literal: digits, an optional point and
      digits, an optional exponent; at least one digit in the mantissa.\<close>
  "parse_decimal s =
     (let ip = takeWhile is_digit s;
          r1 = dropWhile is_digit s;
          pt = (r1 \<noteq> [] \<and> hd r1 = CHR ''.'');
          fp = (if pt then takeWhile is_digit (tl r1) else []);
          r2 = (if pt then dropWhile is_digit (tl r1) else r1)
      in if ip = [] \<and> fp = [] then None
         else (case parse_exponent r2 of
                 None \<Rightarrow> None
               | Some (neg, e) \<Rightarrow>
                   Some (scale10 (of_int (int_of_digits (ip @ fp)) / 10 ^ length fp) neg e)))"

definition parse_unsigned :: "string \<Rightarrow> pyfloat option" where
  \<comment> \<open>The text after the sign: \<^verbatim>\<open>inf\<close>, \<^verbatim>\<open>infinity\<close> or \<^verbatim>\<open>nan\<close> in any case, or a
      decimal literal, rounded.\<close>
  "parse_unsigned s =
     (let l = py_lower s in
      if l = ''inf'' \<or> l = ''infinity'' then Some PInf
      else if l = ''nan'' then Some NaN
      else map_option round64 (parse_decimal s))"

definition py_float :: "string \<Rightarrow> pyfloat option" where
  \<comment> \<open>\<^verbatim>\<open>float(s)\<close> for a string; \<open>None\<close> is the \<^verbatim>\<open>ValueError\<close>. White space around the
      number is skipped, underscores are checked and removed, then the sign is read.\<close>
  "py_float s =
     (let t = float_strip s in
      if \<not> underscores_ok (CHR 0x00) t then None
      else (case remove_char (CHR ''_'') t of
              [] \<Rightarrow> None
            | c # r \<Rightarrow>
                if c = CHR ''-'' then map_option fneg (parse_unsigned r)
                else if c = CHR ''+'' then parse_unsigned r
                else parse_unsigned (c # r)))"

subsection \<open>Cells and the amount normaliser\<close>

text \<open>
  A cell of the table read by \<^verbatim>\<open>pandas.read_csv\<close> is a \<^verbatim>\<open>str\<close> object or a number; an
  empty field is the number NaN. A number is kept as the text that \<^verbatim>\<open>str\<close> prints for it
  (\<^verbatim>\<open>nan\<close> for NaN): \<^verbatim>\<open>float(x)\<close> of a number is then \<^verbatim>\<open>float\<close> of its text, which
  Python guarantees to give \<^verbatim>\<open>x\<close> back.
\<close>

datatype cell = Str string | Num string

fun py_str :: "cell \<Rightarrow> string" where
  \<comment> \<open>\<^verbatim>\<open>str(x)\<close>\<close>
  "py_str (Str s) = s"
| "py_str (Num s) = s"

definition reject_tokens :: "string list" where
  "reject_tokens = [''lac'', ''lakh'', ''cr'', ''unknown'', ''n/a'']"

definition amount_text :: "string \<Rightarrow> string" where
  \<comment> \<open>\<^verbatim>\<open>x.replace(',', '').replace('$', '').strip().lower()\<close>\<close>
  "amount_text s = py_lower (py_strip (remove_char (CHR ''$'') (remove_char (CHR '','') s)))"

definition float_or_nan :: "string \<Rightarrow> pyfloat" where
  \<comment> \<open>\<^verbatim>\<open>try: return float(x) / 1_000_000\<close>, \<^verbatim>\<open>except: return np.nan\<close>\<close>
  "float_or_nan x = (case py_float x of None \<Rightarrow> NaN | Some v \<Rightarrow> fdiv_million v)"

fun clean_amount :: "cell \<Rightarrow> pyfloat" where
  "clean_amount (Str s) =
     (let x = amount_text s in
      if list_ex (\<lambda>u. py_in u x) reject_tokens then NaN else float_or_nan x)"
| "clean_amount (Num s) = float_or_nan s"

subsection \<open>Dates and \<^verbatim>\<open>datetime.strptime(s, '%d/%m/%Y')\<close>\<close>

record datetime =
  year :: int
  month :: int
  day :: int

definition is_leap :: "int \<Rightarrow> bool" where
  "is_leap y \<longleftrightarrow> y mod 4 = 0 \<and> (y mod 100 \<noteq> 0 \<or> y mod 400 = 0)"

definition days_in_month :: "int \<Rightarrow> int \<Rightarrow> int" where
  "days_in_month y m =
     (if m = 2 then (if is_leap y then 29 else 28)
      else if m \<in> {4, 6, 9, 11} then 30 else 31)"

definition new_datetime :: "int \<Rightarrow> int \<Rightarrow> int \<Rightarrow> datetime option" where
  \<comment> \<open>The constructor \<^verbatim>\<open>datetime(year, month, day)\<close>; \<open>None\<close> is its \<^verbatim>\<open>ValueError\<close>.\<close>
  "new_datetime y m d =
     (if 1 \<le> y \<and> y \<le> 9999 \<and> 1 \<le> m \<and> m \<le> 12 \<and> 1 \<le> d \<and> d \<le> days_in_month y m
      then Some \<lparr>year = y, month = m, day = d\<rparr> else None)"

definition in_ns_range :: "datetime \<Rightarrow> bool" where
  \<comment> \<open>The midnights that a nanosecond timestamp of 64 bits holds: from 22 September 1677
      to 11 April 2262.\<close>
  "in_ns_range d \<longleftrightarrow>
     (1677, 9, 22) \<le> (year d, month d, day d) \<and> (year d, month d, day d) \<le> (2262, 4, 11)"

text \<open>
  \<^verbatim>\<open>strptime\<close> turns the format into a regular expression, one group for each directive,
  and matches it at the start of the text with a backtracking matcher. A matcher below
  returns the ways to match at the start of a text, the alternatives of the group in
  their written order, each with the text that is left.
\<close>

definition one_char :: "(char \<Rightarrow> bool) \<Rightarrow> string \<Rightarrow> (string \<times> string) list" where
  "one_char p s = (case s of a # r \<Rightarrow> if p a then [([a], r)] else [] | [] \<Rightarrow> [])"

definition two_chars ::
  "(char \<Rightarrow> bool) \<Rightarrow> (char \<Rightarrow> bool) \<Rightarrow> string \<Rightarrow> (string \<times> string) list" where
  "two_chars p q s =
     (case s of a # b # r \<Rightarrow> if p a \<and> q b then [([a, b], r)] else [] | _ \<Rightarrow> [])"

definition is_digit19 :: "char \<Rightarrow> bool" where
  "is_digit19 c \<longleftrightarrow> c \<in> set ''123456789''"

definition re_d :: "string \<Rightarrow> (string \<times> string) list" where
  \<comment> \<open>\<^verbatim>\<open>%d\<close> is \<^verbatim>\<open>(3[0-1]|[1-2]\d|0[1-9]|[1-9]| [1-9])\<close>\<close>
  "re_d s =
     two_chars (\<lambda>c. c = CHR ''3'') (\<lambda>c. c \<in> set ''01'') s @
     two_chars (\<lambda>c. c \<in> set ''12'') is_digit s @
     two_chars (\<lambda>c. c = CHR ''0'') is_digit19 s @
     one_char is_digit19 s @
     two_chars (\<lambda>c. c = CHR '' '') is_digit19 s"

definition re_m :: "string \<Rightarrow> (string \<times> string) list" where
  \<comment> \<open>\<^verbatim>\<open>%m\<close> is \<^verbatim>\<open>(1[0-2]|0[1-9]|[1-9])\<close>\<close>
  "re_m s =
     two_chars (\<lambda>c. c = CHR ''1'') (\<lambda>c. c \<in> set ''012'') s @
     two_chars (\<lambda>c. c = CHR ''0'') is_digit19 s @
     one_char is_digit19 s"

definition re_Y :: "string \<Rightarrow> (string \<times> string) list" where
  \<comment> \<open>\<^verbatim>\<open>%Y\<close> is \<^verbatim>\<open>(\d\d\d\d)\<close>\<close>
  "re_Y s =
     (if 4 \<le> length s \<and> list_all is_digit (take 4 s) then [(take 4 s, drop 4 s)] else [])"

definition re_slash :: "string \<Rightarrow> string list" where
  "re_slash s = (case s of a # r \<Rightarrow> if a = CHR ''/'' then [r] else [] | [] \<Rightarrow> [])"

definition re_matches :: "string \<Rightarrow> (string \<times> string \<times> string \<times> string) list" where
  \<comment> \<open>The matches of \<^verbatim>\<open>%d/%m/%Y\<close> at the start of the text, in the order in which the
      matcher finds them: the three groups and the text after the match.\<close>
  "re_matches s =
     [(d, m, y, r5). (d, r1) \<leftarrow> re_d s, r2 \<leftarrow> re_slash r1, (m, r3) \<leftarrow> re_m r2,
                     r4 \<leftarrow> re_slash r3, (y, r5) \<leftarrow> re_Y r4]"

definition re_match :: "string \<Rightarrow> (string \<times> string \<times> string \<times> string) option" where
  \<comment> \<open>\<^verbatim>\<open>re.match\<close>: the first match, if there is one\<close>
  "re_match s = (case re_matches s of [] \<Rightarrow> None | x # _ \<Rightarrow> Some x)"

definition py_int :: "string \<Rightarrow> int" where
  \<comment> \<open>\<^verbatim>\<open>int(s)\<close> of a matched group: digits, with white space around them skipped\<close>
  "py_int s = int_of_digits (py_strip s)"

definition strptime :: "string \<Rightarrow> datetime option" where
  \<comment> \<open>\<open>None\<close> is the \<^verbatim>\<open>ValueError\<close>: the text does not match the format, text remains
      after the match, or the day is out of range for the month.\<close>
  "strptime s =
     (case re_match s of
        None \<Rightarrow> None
      | Some (d, m, y, rest) \<Rightarrow>
          if rest \<noteq> [] then None else new_datetime (py_int y) (py_int m) (py_int d))"

definition clean_date :: "cell \<Rightarrow> datetime option" where
  \<comment> \<open>\<open>None\<close> is \<^verbatim>\<open>pd.NaT\<close>\<close>
  "clean_date d = strptime (py_strip (py_str d))"

fun zero_pad :: "nat \<Rightarrow> string \<Rightarrow> string" where
  "zero_pad n s = replicate (n - length s) (CHR ''0'') @ s"

definition digit_char :: "int \<Rightarrow> char" where
  "digit_char d = ''0123456789'' ! nat d"

function digits_of :: "int \<Rightarrow> string" where
  \<comment> \<open>the decimal digits of a number that is not negative\<close>
  "digits_of n = (if n < 10 then [digit_char n] else digits_of (n div 10) @ [digit_char (n mod 10)])"
  by pat_completeness auto
termination
  by (relation "measure nat") auto

declare digits_of.simps [simp del]

definition period_str :: "datetime \<Rightarrow> string" where
  \<comment> \<open>\<^verbatim>\<open>str\<close> of the monthly period of a date: \<^verbatim>\<open>%Y-%m\<close>\<close>
  "period_str d = zero_pad 4 (digits_of (year d)) @ ''-'' @ zero_pad 2 (digits_of (month d))"

subsection \<open>Data frames and \<^verbatim>\<open>load_data\<close>\<close>

text \<open>
  The frame that \<^verbatim>\<open>read_csv\<close> returns: its number of columns and its rows. A row with
  fewer fields than the frame has columns is filled up with NaN, as \<^verbatim>\<open>read_csv\<close> does.
\<close>

record raw_frame =
  ncols :: nat
  cells :: "cell list list"

definition cell_at :: "cell list \<Rightarrow> nat \<Rightarrow> cell" where
  "cell_at r j = (if j < length r then r ! j else Num ''nan'')"

text \<open>
  The six columns that \<^verbatim>\<open>load_data\<close> works on. The type of a column changes as it is
  cleaned, so the row is polymorphic in the types of the date, of the amount and of the
  four text columns. \<^verbatim>\<open>Year\<close> and \<^verbatim>\<open>Month\<close> are added later.
\<close>

record ('d, 'a, 't) row =
  Date :: 'd
  Startup_Name :: 't
  Sector :: 't
  City :: 't
  Investment_Type :: 't
  Amount :: 'a

record ('d, 'a, 't) dated_row = "('d, 'a, 't) row" +
  Year :: int
  Month :: string

type_synonym 'r frame = "(nat \<times> 'r) list"

type_synonym funding = "(datetime, pyfloat, ustring) dated_row"

definition select_columns :: "cell list \<Rightarrow> (cell, cell, cell) row" where
  \<comment> \<open>the cells at the positions 13, 14, 15, 17, 19 and 20 of a row, under their new names\<close>
  "select_columns r =
     \<lparr>Date = cell_at r 13, Startup_Name = cell_at r 14, Sector = cell_at r 15,
      City = cell_at r 17, Investment_Type = cell_at r 19, Amount = cell_at r 20\<rparr>"

definition iloc_columns :: "raw_frame \<Rightarrow> (cell, cell, cell) row frame option" where
  \<comment> \<open>\<^verbatim>\<open>data.iloc[:, [13, 14, 15, 17, 19, 20]]\<close> with the columns renamed; the rows are
      labelled from 0. \<open>None\<close> is the \<^verbatim>\<open>IndexError\<close> of a position outside the frame.\<close>
  "iloc_columns data =
     (if ncols data < 21 then None
      else Some (map (\<lambda>(i, r). (i, select_columns r)) (enumerate 0 (cells data))))"

definition where_rows :: "('r \<Rightarrow> bool) \<Rightarrow> 'r frame \<Rightarrow> 'r frame" where
  \<comment> \<open>\<^verbatim>\<open>df[mask]\<close>: the rows where the condition holds, with their labels\<close>
  "where_rows p df = filter (\<lambda>(i, r). p r) df"

definition apply_Amount ::
  "('a \<Rightarrow> 'b) \<Rightarrow> ('d, 'a, 't) row frame \<Rightarrow> ('d, 'b, 't) row frame" where
  \<comment> \<open>\<^verbatim>\<open>df['Amount'] = df['Amount'].apply(f)\<close>\<close>
  "apply_Amount f df =
     map (\<lambda>(i, r). (i, \<lparr>Date = Date r, Startup_Name = Startup_Name r, Sector = Sector r,
                          City = City r, Investment_Type = Investment_Type r,
                          Amount = f (Amount r)\<rparr>)) df"

definition apply_Date ::
  "('d \<Rightarrow> 'e) \<Rightarrow> ('d, 'a, 't) row frame \<Rightarrow> ('e, 'a, 't) row frame" where
  \<comment> \<open>\<^verbatim>\<open>df['Date'] = df['Date'].apply(f)\<close>\<close>
  "apply_Date f df =
     map (\<lambda>(i, r). (i, \<lparr>Date = f (Date r), Startup_Name = Startup_Name r, Sector = Sector r,
                          City = City r, Investment_Type = Investment_Type r,
                          Amount = Amount r\<rparr>)) df"

definition dropna_Amount :: "('d, pyfloat, 't) row frame \<Rightarrow> ('d, pyfloat, 't) row frame" where
  \<comment> \<open>\<^verbatim>\<open>df.dropna(subset=['Amount'], inplace=True)\<close>\<close>
  "dropna_Amount df = where_rows (\<lambda>r. \<not> isnan (Amount r)) df"

definition datetimelike :: "datetime option list \<Rightarrow> bool" where
  \<comment> \<open>The column that \<^verbatim>\<open>apply(clean_date)\<close> returns is stored as timestamps, and so has
      the \<^verbatim>\<open>.dt\<close> accessor, when it has a row and every date in it fits a nanosecond
      timestamp. The column of an empty frame keeps the type of objects, and so does a
      column with a date out of the range.\<close>
  "datetimelike col \<longleftrightarrow>
     col \<noteq> [] \<and> list_all (\<lambda>d. case d of None \<Rightarrow> True | Some t \<Rightarrow> in_ns_range t) col"

definition dropna_Date :: "('d option, 'a, 't) row frame \<Rightarrow> ('d, 'a, 't) row frame" where
  \<comment> \<open>\<^verbatim>\<open>df.dropna(subset=['Date'], inplace=True)\<close>: the rows with \<^verbatim>\<open>NaT\<close> go, and the
      column holds dates from here on.\<close>
  "dropna_Date df =
     concat (map (\<lambda>(i, r). case Date r of
                    None \<Rightarrow> []
                  | Some d \<Rightarrow> [(i, \<lparr>Date = d, Startup_Name = Startup_Name r, Sector = Sector r,
                                       City = City r, Investment_Type = Investment_Type r,
                                       Amount = Amount r\<rparr>)]) df)"

definition add_Year_Month ::
  "(datetime, 'a, 't) row frame \<Rightarrow> (datetime, 'a, 't) dated_row frame" where
  \<comment> \<open>\<^verbatim>\<open>df['Year'] = df['Date'].dt.year\<close> and
      \<^verbatim>\<open>df['Month'] = df['Date'].dt.to_period('M').astype(str)\<close>\<close>
  "add_Year_Month df =
     map (\<lambda>(i, r). (i, \<lparr>Date = Date r, Startup_Name = Startup_Name r, Sector = Sector r,
                          City = City r, Investment_Type = Investment_Type r,
                          Amount = Amount r,
                          Year = year (Date r), Month = period_str (Date r)\<rparr>)) df"

definition series_replace :: "(ustring \<times> ustring) list \<Rightarrow> ustring \<Rightarrow> ustring" where
  \<comment> \<open>\<^verbatim>\<open>Series.replace(d)\<close> at one value: a value equal to a key of the dictionary is
      replaced, any other is kept.\<close>
  "series_replace d x = (case map_of d x of None \<Rightarrow> x | Some y \<Rightarrow> y)"

definition clean_text :: "cell \<Rightarrow> ustring" where
  \<comment> \<open>\<^verbatim>\<open>.astype(str).str.strip().str.title().replace({'Nan': 'Other', 'N/A': 'Other'})\<close>\<close>
  "clean_text c =
     series_replace [(ustr ''Nan'', ustr ''Other''), (ustr ''N/A'', ustr ''Other'')]
       (py_title (py_strip (py_str c)))"

definition clean_text_columns ::
  "('d, 'a, cell) dated_row frame \<Rightarrow> ('d, 'a, ustring) dated_row frame" where
  \<comment> \<open>the loop over \<^verbatim>\<open>['Sector', 'City', 'Investment Type', 'Startup Name']\<close>\<close>
  "clean_text_columns df =
     map (\<lambda>(i, r). (i, \<lparr>Date = Date r, Startup_Name = clean_text (Startup_Name r),
                          Sector = clean_text (Sector r), City = clean_text (City r),
                          Investment_Type = clean_text (Investment_Type r),
                          Amount = Amount r, Year = Year r, Month = Month r\<rparr>)) df"

definition city_aliases :: "(ustring \<times> ustring) list" where
  "city_aliases =
     [(ustr ''Bengaluru'', ustr ''Bangalore''), (ustr ''New Delhi'', ustr ''Delhi''),
      (ustr ''Gurugram'', ustr ''Gurgaon''), (ustr ''Hydrabad'', ustr ''Hyderabad'')]"

definition type_aliases :: "(ustring \<times> ustring) list" where
  "type_aliases = [(ustr ''Seed/ Angel Funding'', ustr ''Seed/Angel Funding'')]"

definition replace_City :: "('d, 'a, ustring) dated_row frame \<Rightarrow> ('d, 'a, ustring) dated_row frame" where
  \<comment> \<open>\<^verbatim>\<open>df['City'] = df['City'].replace({...})\<close>\<close>
  "replace_City df = map (\<lambda>(i, r). (i, r\<lparr>City := series_replace city_aliases (City r)\<rparr>)) df"

definition replace_Investment_Type ::
  "('d, 'a, ustring) dated_row frame \<Rightarrow> ('d, 'a, ustring) dated_row frame" where
  \<comment> \<open>\<^verbatim>\<open>df['Investment Type'] = df['Investment Type'].replace({...})\<close>\<close>
  "replace_Investment_Type df =
     map (\<lambda>(i, r). (i, r\<lparr>Investment_Type := series_replace type_aliases (Investment_Type r)\<rparr>)) df"

datatype py_error = AttributeError

definition clean_frame :: "(cell, cell, cell) row frame \<Rightarrow> py_error + funding frame" where
  \<comment> \<open>The body of \<^verbatim>\<open>load_data\<close> after the columns are selected, statement by statement.
      \<^verbatim>\<open>df['Date'].dt.year\<close> raises \<^verbatim>\<open>AttributeError\<close> when the column is not stored as
      timestamps; nothing catches it.\<close>
  "clean_frame df0 =
     (let df1 = apply_Amount clean_amount df0;
          df2 = dropna_Amount df1;
          df3 = where_rows (\<lambda>r. fless (Fin 0) (Amount r)) df2;
          df4 = apply_Date clean_date df3
      in if \<not> datetimelike (map (Date \<circ> snd) df4) then Inl AttributeError
         else
           (let df5 = dropna_Date df4;
                df6 = add_Year_Month df5;
                df7 = clean_text_columns df6;
                df8 = replace_City df7;
                df9 = replace_Investment_Type df8
            in Inr (where_rows (\<lambda>r. fless (Amount r) (Fin 1000)) df9)))"

datatype st_error = Could_not_load | Column_mismatch

record loaded =
  shown :: "st_error list"
  frame :: "funding frame"

definition load_data :: "raw_frame option \<Rightarrow> py_error + loaded" where
  \<comment> \<open>The argument is what \<^verbatim>\<open>pd.read_csv\<close> gives: a frame, or \<open>None\<close> when it raises.
      \<open>Inl\<close> is an exception that leaves \<^verbatim>\<open>load_data\<close>. Of a result, \<open>shown\<close> are the
      messages passed to \<^verbatim>\<open>st.error\<close>; the frame after a message is the empty
      \<^verbatim>\<open>pd.DataFrame()\<close>.\<close>
  "load_data csv =
     (case csv of
        None \<Rightarrow> Inr \<lparr>shown = [Could_not_load], frame = []\<rparr>
      | Some data \<Rightarrow>
          (case iloc_columns data of
             None \<Rightarrow> Inr \<lparr>shown = [Column_mismatch], frame = []\<rparr>
           | Some df \<Rightarrow>
               (case clean_frame df of
                  Inl e \<Rightarrow> Inl e
                | Inr fr \<Rightarrow> Inr \<lparr>shown = [], frame = fr\<rparr>)))"

subsection \<open>The filter of \<^verbatim>\<open>main\<close>\<close>

definition between :: "pyfloat \<Rightarrow> pyfloat \<Rightarrow> pyfloat \<Rightarrow> bool" where
  \<comment> \<open>\<^verbatim>\<open>Series.between(lo, hi)\<close> at one value, both ends included\<close>
  "between a lo hi \<longleftrightarrow> fle lo a \<and> fle a hi"

definition filtered_df ::
  "int \<times> int \<Rightarrow> ustring list \<Rightarrow> pyfloat \<times> pyfloat \<Rightarrow> funding frame \<Rightarrow> funding frame" where
  \<comment> \<open>the rows that pass the year range, the selected cities and the funding range\<close>
  "filtered_df year_range selected_cities funding_range df =
     where_rows (\<lambda>r. fst year_range \<le> Year r \<and> Year r \<le> snd year_range \<and>
                      City r \<in> set selected_cities \<and>
                      between (Amount r) (fst funding_range) (snd funding_range)) df"

fun fmin :: "pyfloat \<Rightarrow> pyfloat \<Rightarrow> pyfloat" where
  "fmin a b = (if fless b a then b else a)"

fun fmax :: "pyfloat \<Rightarrow> pyfloat \<Rightarrow> pyfloat" where
  "fmax a b = (if fless a b then b else a)"

definition series_min :: "pyfloat list \<Rightarrow> pyfloat" where
  \<comment> \<open>\<^verbatim>\<open>Series.min()\<close>: NaN is skipped; NaN when nothing is left\<close>
  "series_min xs = (case filter (\<lambda>x. \<not> isnan x) xs of [] \<Rightarrow> NaN | y # ys \<Rightarrow> fold fmin ys y)"

definition series_max :: "pyfloat list \<Rightarrow> pyfloat" where
  \<comment> \<open>\<^verbatim>\<open>Series.max()\<close>\<close>
  "series_max xs = (case filter (\<lambda>x. \<not> isnan x) xs of [] \<Rightarrow> NaN | y # ys \<Rightarrow> fold fmax ys y)"

definition year_bounds :: "funding frame \<Rightarrow> int \<times> int" where
  \<comment> \<open>\<^verbatim>\<open>min_year, max_year\<close> of a frame that is not empty\<close>
  "year_bounds df = (Min (set (map (Year \<circ> snd) df)), Max (set (map (Year \<circ> snd) df)))"

definition all_cities :: "funding frame \<Rightarrow> ustring list" where
  \<comment> \<open>\<^verbatim>\<open>sorted(df['City'].unique().tolist())\<close>\<close>
  "all_cities df = sort (remdups (map (City \<circ> snd) df))"

definition amount_bounds :: "funding frame \<Rightarrow> pyfloat \<times> pyfloat" where
  \<comment> \<open>\<^verbatim>\<open>min_amt, max_amt\<close>\<close>
  "amount_bounds df = (series_min (map (Amount \<circ> snd) df), series_max (map (Amount \<circ> snd) df))"

subsection \<open>The frames behind the charts\<close>

definition to_datetime :: "string \<Rightarrow> datetime option" where
  \<comment> \<open>\<^verbatim>\<open>pd.to_datetime(s, errors='coerce')\<close> on a text of the \<^verbatim>\<open>Month\<close> column, a period
      \<^verbatim>\<open>YYYY-MM\<close>: the first day of the month; \<open>None\<close> is \<^verbatim>\<open>NaT\<close>, also for a day that no
      nanosecond timestamp holds.\<close>
  "to_datetime s =
     (if length s = 7 \<and> list_all is_digit (take 4 s) \<and> s ! 4 = CHR ''-'' \<and>
         list_all is_digit (drop 5 s)
      then (case new_datetime (int_of_digits (take 4 s)) (int_of_digits (drop 5 s)) 1 of
              None \<Rightarrow> None
            | Some d \<Rightarrow> if in_ns_range d then Some d else None)
      else None)"

definition stamp :: "datetime \<Rightarrow> int \<times> int \<times> int" where
  \<comment> \<open>Dates are ordered as their year, month and day are.\<close>
  "stamp d = (year d, month d, day d)"

definition kahan_step :: "pyfloat \<times> pyfloat \<Rightarrow> pyfloat \<Rightarrow> pyfloat \<times> pyfloat" where
  \<comment> \<open>One step of the compensated sum of \<^verbatim>\<open>group_sum\<close>: the running sum and its
      compensation take in a value; NaN is skipped, and a compensation that is NaN is reset.\<close>
  "kahan_step sc v =
     (if isnan v then sc
      else
        (let y = fsub v (snd sc);
             t = fadd (fst sc) y;
             c = fsub (fsub t (fst sc)) y
         in (t, if isnan c then Fin 0 else c)))"

fun add_to_group ::
  "'k::linorder \<Rightarrow> pyfloat \<Rightarrow> ('k \<times> pyfloat \<times> pyfloat) list \<Rightarrow> ('k \<times> pyfloat \<times> pyfloat) list" where
  \<comment> \<open>The groups are kept in the order of their keys; a value joins the group of its key,
      or starts that group from zero.\<close>
  "add_to_group k v [] = [(k, kahan_step (Fin 0, Fin 0) v)]"
| "add_to_group k v ((k', sc) # gs) =
     (if k < k' then (k, kahan_step (Fin 0, Fin 0) v) # (k', sc) # gs
      else if k = k' then (k', kahan_step sc v) # gs
      else (k', sc) # add_to_group k v gs)"

definition groupby_sum :: "('k::linorder option \<times> pyfloat) list \<Rightarrow> ('k \<times> pyfloat) list" where
  \<comment> \<open>\<^verbatim>\<open>df.groupby(key, as_index=False)[col].sum()\<close> on the pairs of key and value of the
      rows: rows without a key are left out, the groups come sorted by key.\<close>
  "groupby_sum kvs =
     map (\<lambda>(k, sc). (k, fst sc))
       (foldl (\<lambda>gs (k, v). case k of None \<Rightarrow> gs | Some k' \<Rightarrow> add_to_group k' v gs) [] kvs)"

definition time_df :: "funding frame \<Rightarrow> ((int \<times> int \<times> int) \<times> pyfloat) list" where
  \<comment> \<open>\<^verbatim>\<open>plot_funding_trend\<close>: the columns \<^verbatim>\<open>Month_dt\<close> and \<^verbatim>\<open>Amount\<close> of \<^verbatim>\<open>time_df\<close>\<close>
  "time_df df =
     groupby_sum (map (\<lambda>(i, r). (map_option stamp (to_datetime (Month r)), Amount r)) df)"

text \<open>
  \<^verbatim>\<open>value_counts\<close> and the slow path of \<^verbatim>\<open>nlargest\<close> sort with
  \<^verbatim>\<open>Series.sort_values(ascending=False)\<close>, whose order among equal counts is that of the
  sorting routine of the library. The routine is the parameter \<open>srt\<close> of the model.
\<close>

definition first_seen :: "'a list \<Rightarrow> 'a list" where
  \<comment> \<open>the distinct values in the order of their first occurrence\<close>
  "first_seen xs = rev (remdups (rev xs))"

definition count_values :: "ustring list \<Rightarrow> (ustring \<times> nat) list" where
  "count_values xs = map (\<lambda>c. (c, count_list xs c)) (first_seen xs)"

definition value_counts ::
  "((ustring \<times> nat) list \<Rightarrow> (ustring \<times> nat) list) \<Rightarrow> ustring list \<Rightarrow> (ustring \<times> nat) list" where
  "value_counts srt xs = srt (count_values xs)"

definition stable_desc :: "(ustring \<times> nat) list \<Rightarrow> (ustring \<times> nat) list" where
  \<comment> \<open>a stable sort by count, largest first\<close>
  "stable_desc vc = sort_key (\<lambda>p. - int (snd p)) vc"

definition nlargest ::
  "((ustring \<times> nat) list \<Rightarrow> (ustring \<times> nat) list) \<Rightarrow> nat \<Rightarrow> (ustring \<times> nat) list
     \<Rightarrow> (ustring \<times> nat) list" where
  \<comment> \<open>\<^verbatim>\<open>Series.nlargest(n)\<close>, \<^verbatim>\<open>keep='first'\<close>: when \<^verbatim>\<open>n\<close> is at least the length, the
      whole series sorted; otherwise the first \<^verbatim>\<open>n\<close> of a stable sort.\<close>
  "nlargest srt n vc =
     (if n = 0 then [] else if length vc \<le> n then take n (srt vc) else take n (stable_desc vc))"

definition city_df ::
  "((ustring \<times> nat) list \<Rightarrow> (ustring \<times> nat) list) \<Rightarrow> nat \<Rightarrow> funding frame
     \<Rightarrow> (ustring \<times> nat) list" where
  \<comment> \<open>\<^verbatim>\<open>df['City'].value_counts().nlargest(n).reset_index()\<close>\<close>
  "city_df srt n df = nlargest srt n (value_counts srt (map (City \<circ> snd) df))"

definition plot_top_cities ::
  "((ustring \<times> nat) list \<Rightarrow> (ustring \<times> nat) list) \<Rightarrow> funding frame \<Rightarrow> (ustring \<times> nat) list" where
  "plot_top_cities srt df = city_df srt 10 df"

subsection \<open>Notions of the specification\<close>

definition cleaned :: "raw_frame \<Rightarrow> funding frame" where
  \<comment> \<open>the cleaned dataset of a table that was read: the frame that \<^verbatim>\<open>load_data\<close>
      returns; there is none when \<^verbatim>\<open>load_data\<close> raises\<close>
  "cleaned data = (case load_data (Some data) of Inl e \<Rightarrow> [] | Inr l \<Rightarrow> frame l)"

definition kept :: "raw_frame \<Rightarrow> nat \<Rightarrow> bool" where
  \<comment> \<open>The row with this label is in the cleaned dataset.\<close>
  "kept data i \<longleftrightarrow> i \<in> fst ` set (cleaned data)"

definition raw_row :: "raw_frame \<Rightarrow> nat \<Rightarrow> (cell, cell, cell) row" where
  \<comment> \<open>the six cells of the row with this label, as they were read\<close>
  "raw_row data i = select_columns (cells data ! i)"

definition clean_row :: "(cell, cell, cell) row \<Rightarrow> funding option" where
  \<comment> \<open>What \<^verbatim>\<open>load_data\<close> makes of one row when it returns: the cleaned record, or \<open>None\<close>
      when one of its four filters removes the row.\<close>
  "clean_row r =
     (let a = clean_amount (Amount r) in
      if isnan a \<or> \<not> fless (Fin 0) a then None
      else (case clean_date (Date r) of
              None \<Rightarrow> None
            | Some d \<Rightarrow>
                if fless a (Fin 1000)
                then Some \<lparr>Date = d, Startup_Name = clean_text (Startup_Name r),
                           Sector = clean_text (Sector r),
                           City = series_replace city_aliases (clean_text (City r)),
                           Investment_Type = series_replace type_aliases (clean_text (Investment_Type r)),
                           Amount = a, Year = year d, Month = period_str d\<rparr>
                else None))"

definition rows_of :: "(cell, cell, cell) row frame \<Rightarrow> funding frame" where
  \<comment> \<open>the cleaned records of the rows of a frame, under the labels of the rows\<close>
  "rows_of df = concat (map (\<lambda>(i, r). case clean_row r of None \<Rightarrow> [] | Some f \<Rightarrow> [(i, f)]) df)"

definition date_column :: "(cell, cell, cell) row frame \<Rightarrow> datetime option list" where
  \<comment> \<open>the parsed dates of the rows whose amount is above 0: the column that
      \<^verbatim>\<open>apply(clean_date)\<close> returns\<close>
  "date_column df =
     map (\<lambda>(i, r). clean_date (Date r))
       (filter (\<lambda>(i, r). fless (Fin 0) (clean_amount (Amount r))) df)"

definition labelled :: "raw_frame \<Rightarrow> (cell, cell, cell) row frame" where
  \<comment> \<open>the six columns of the rows of a table, labelled from 0\<close>
  "labelled data = map (\<lambda>(i, r). (i, select_columns r)) (enumerate 0 (cells data))"

definition day_group :: "string \<Rightarrow> bool" where
  \<comment> \<open>the texts that the group of \<^verbatim>\<open>%d\<close> matches\<close>
  "day_group d =
     (case d of
        [a] \<Rightarrow> is_digit19 a
      | [a, b] \<Rightarrow>
          a = CHR ''3'' \<and> b \<in> set ''01'' \<or> a \<in> set ''12'' \<and> is_digit b \<or>
          a = CHR ''0'' \<and> is_digit19 b \<or> a = CHR '' '' \<and> is_digit19 b
      | _ \<Rightarrow> False)"

definition month_group :: "string \<Rightarrow> bool" where
  \<comment> \<open>the texts that the group of \<^verbatim>\<open>%m\<close> matches\<close>
  "month_group m =
     (case m of
        [a] \<Rightarrow> is_digit19 a
      | [a, b] \<Rightarrow> a = CHR ''1'' \<and> b \<in> set ''012'' \<or> a = CHR ''0'' \<and> is_digit19 b
      | _ \<Rightarrow> False)"

definition contains_ci :: "string \<Rightarrow> string \<Rightarrow> bool" where
  \<comment> \<open>The text holds the token somewhere, upper and lower case taken as equal.\<close>
  "contains_ci s u \<longleftrightarrow> (\<exists>ps w ss. s = ps @ w @ ss \<and> py_lower w = u)"

definition valid_date :: "datetime \<Rightarrow> bool" where
  \<comment> \<open>a date of the calendar\<close>
  "valid_date d \<longleftrightarrow>
     1 \<le> year d \<and> year d \<le> 9999 \<and> 1 \<le> month d \<and> month d \<le> 12 \<and>
     1 \<le> day d \<and> day d \<le> days_in_month (year d) (month d)"

definition strict_ddmmyyyy :: "string \<Rightarrow> bool" where
  \<comment> \<open>\<^verbatim>\<open>DD/MM/YYYY\<close> exactly: two digits, a slash, two digits, a slash, four digits\<close>
  "strict_ddmmyyyy s \<longleftrightarrow>
     length s = 10 \<and> list_all is_digit (take 2 s) \<and> s ! 2 = CHR ''/'' \<and>
     list_all is_digit (take 2 (drop 3 s)) \<and> s ! 5 = CHR ''/'' \<and> list_all is_digit (drop 6 s)"

definition number_text :: "int \<Rightarrow> int \<Rightarrow> string \<Rightarrow> bool" where
  \<comment> \<open>one or two digits that denote a number from \<open>lo\<close> to \<open>hi\<close>\<close>
  "number_text lo hi s \<longleftrightarrow>
     (length s = 1 \<or> length s = 2) \<and> list_all is_digit s \<and>
     lo \<le> int_of_digits s \<and> int_of_digits s \<le> hi"

definition dmy_text :: "string \<Rightarrow> bool" where
  \<comment> \<open>Day, month and year with slashes between them: a day and a month of one or two
      digits, a year of four, and together a date of the calendar.\<close>
  "dmy_text s \<longleftrightarrow>
     (\<exists>d m y. s = d @ ''/'' @ m @ ''/'' @ y \<and> number_text 1 31 d \<and> number_text 1 12 m \<and>
        length y = 4 \<and> list_all is_digit y \<and>
        valid_date \<lparr>year = int_of_digits y, month = int_of_digits m, day = int_of_digits d\<rparr>)"

definition padded_dmy_text :: "string \<Rightarrow> bool" where
  \<comment> \<open>such a date with nothing but white space before and after it\<close>
  "padded_dmy_text s \<longleftrightarrow>
     (\<exists>l t r. s = l @ t @ r \<and> list_all is_space l \<and> list_all is_space r \<and> dmy_text t)"

function runs :: "('a \<Rightarrow> bool) \<Rightarrow> 'a list \<Rightarrow> 'a list list" where
  \<comment> \<open>The text cut where the property changes: with \<open>is_cased\<close>, the words (the runs of
      letters) and what stands between them.\<close>
  "runs p [] = []"
| "runs p (x # xs) =
     (x # takeWhile (\<lambda>y. p y = p x) xs) # runs p (dropWhile (\<lambda>y. p y = p x) xs)"
  by pat_completeness auto
termination
  by (relation "measure (\<lambda>(p, xs). length xs)") (auto simp: length_dropWhile_le less_Suc_eq_le)

definition capitalize :: "string \<Rightarrow> ustring" where
  \<comment> \<open>first letter in title case (its capital), rest lower-cased\<close>
  "capitalize w = (case w of [] \<Rightarrow> [] | c # r \<Rightarrow> title_char c @ ustr (map lower_char r))"

definition title_words :: "string \<Rightarrow> ustring" where
  \<comment> \<open>title case, as the specification words it: every word is capitalised\<close>
  "title_words s = concat (map capitalize (runs is_cased s))"

definition normalized_text :: "cell \<Rightarrow> ustring" where
  \<comment> \<open>trimmed and title-cased, with \<^verbatim>\<open>Nan\<close> and \<^verbatim>\<open>N/A\<close> mapped to \<^verbatim>\<open>Other\<close>\<close>
  "normalized_text c =
     (let t = title_words (py_strip (py_str c))
      in if t = ustr ''Nan'' \<or> t = ustr ''N/A'' then ustr ''Other'' else t)"

definition alias_once :: "(ustring \<times> ustring) list \<Rightarrow> ustring \<Rightarrow> ustring" where
  \<comment> \<open>one exact-match look-up in an alias table; the result is not looked up again\<close>
  "alias_once tab x = (if x \<in> fst ` set tab then the (map_of tab x) else x)"

definition period_year :: "string \<Rightarrow> int" where
  \<comment> \<open>the year of a period text \<^verbatim>\<open>YYYY-MM\<close>: the number before the hyphen\<close>
  "period_year s = int_of_digits (takeWhile (\<lambda>c. c \<noteq> CHR ''-'') s)"

definition desc_sort :: "(('a \<times> nat) list \<Rightarrow> ('a \<times> nat) list) \<Rightarrow> bool" where
  \<comment> \<open>what is known of the library's sort: it reorders, and the counts come out falling\<close>
  "desc_sort srt \<longleftrightarrow>
     (\<forall>xs. mset (srt xs) = mset xs \<and> sorted_wrt (\<lambda>a b. snd b \<le> snd a) (srt xs))"

subsection \<open>Example tables\<close>

definition example_row ::
  "string \<Rightarrow> string \<Rightarrow> string \<Rightarrow> string \<Rightarrow> string \<Rightarrow> string \<Rightarrow> cell list" where
  \<comment> \<open>a row of 21 cells: date, name, sector, city, investment type and amount at their
      positions, empty cells elsewhere\<close>
  "example_row d n s c t a =
     replicate 13 (Num ''nan'') @
     [Str d, Str n, Str s, Num ''nan'', Str c, Num ''nan'', Str t, Str a]"

definition spec_row :: "cell list" where
  \<comment> \<open>the row of the end-to-end example of the specification\<close>
  "spec_row =
     example_row ''04/01/2015'' ''ABC Tech'' ''Tech'' ''Bengaluru'' ''Seed/ Angel Funding'' ''1000000''"

definition spec_record :: funding where
  \<comment> \<open>the record that the specification expects for that row\<close>
  "spec_record =
     \<lparr>Date = \<lparr>year = 2015, month = 1, day = 4\<rparr>, Startup_Name = ustr ''Abc Tech'',
      Sector = ustr ''Tech'', City = ustr ''Bangalore'',
      Investment_Type = ustr ''Seed/Angel Funding'',
      Amount = Fin 1, Year = 2015, Month = ''2015-01''\<rparr>"

definition spec_table :: raw_frame where
  "spec_table = \<lparr>ncols = 21, cells = [spec_row]\<rparr>"

definition narrow_table :: raw_frame where
  \<comment> \<open>a table of six columns\<close>
  "narrow_table =
     \<lparr>ncols = 6,
      cells = [[Str ''04/01/2015'', Str ''ABC Tech'', Str ''Tech'', Str ''Bengaluru'',
                Str ''Seed/ Angel Funding'', Str ''1000000'']]\<rparr>"

definition token_table :: raw_frame where
  \<comment> \<open>the row of the example, and a row whose amount is a number followed by a unit\<close>
  "token_table =
     \<lparr>ncols = 21,
      cells = [spec_row,
               example_row ''05/01/2015'' ''Xyz Labs'' ''Tech'' ''Pune'' ''Seed Funding'' ''5 Lakh'']\<rparr>"

definition undated_table :: raw_frame where
  \<comment> \<open>the row of the example, and a row whose Date cell is no date\<close>
  "undated_table =
     \<lparr>ncols = 21,
      cells = [spec_row,
               example_row ''2015-01-05'' ''Xyz Labs'' ''Tech'' ''Pune'' ''Seed Funding'' ''2000000'']\<rparr>"

definition short_date_table :: raw_frame where
  \<comment> \<open>the row of the example with day and month written in one digit each\<close>
  "short_date_table =
     \<lparr>ncols = 21,
      cells = [example_row ''4/1/2015'' ''ABC Tech'' ''Tech'' ''Bengaluru''
                 ''Seed/ Angel Funding'' ''1000000'']\<rparr>"

section \<open>Properties\<close>

subsection \<open>\<^verbatim>\<open>load_data\<close> row by row\<close>

lemmas frame_steps = apply_Amount_def dropna_Amount_def where_rows_def
  apply_Date_def dropna_Date_def add_Year_Month_def clean_text_columns_def replace_City_def
  replace_Investment_Type_def

lemma fless_not_nan: "fless a b \<Longrightarrow> \<not> isnan a \<and> \<not> isnan b"
  by (cases a; cases b) auto

lemma amount_steps_date_column:
  "map (Date \<circ> snd)
     (apply_Date clean_date
        (where_rows (\<lambda>r. fless (Fin 0) (Amount r))
           (dropna_Amount (apply_Amount clean_amount df)))) = date_column df"
  by (induction df) (auto simp: frame_steps date_column_def dest: fless_not_nan)

lemma all_steps_rows_of:
  "where_rows (\<lambda>r. fless (Amount r) (Fin 1000))
     (replace_Investment_Type
        (replace_City
           (clean_text_columns
              (add_Year_Month
                 (dropna_Date
                    (apply_Date clean_date
                       (where_rows (\<lambda>r. fless (Fin 0) (Amount r))
                          (dropna_Amount (apply_Amount clean_amount df))))))))) = rows_of df"
proof (induction df)
  case Nil
  show ?case by (simp add: frame_steps rows_of_def)
next
  case (Cons x df)
  obtain i r where x: "x = (i, r)" by (cases x)
  show ?case
    using Cons.IH unfolding x
    by (simp add: frame_steps rows_of_def clean_row_def Let_def split: option.splits)
qed

lemma clean_frame_eq:
  "clean_frame df =
     (if datetimelike (date_column df) then Inr (rows_of df) else Inl AttributeError)"
  unfolding clean_frame_def Let_def amount_steps_date_column all_steps_rows_of by simp

lemma load_data_eq:
  "load_data (Some data) =
     (if ncols data < 21 then Inr \<lparr>shown = [Column_mismatch], frame = []\<rparr>
      else if datetimelike (date_column (labelled data))
      then Inr \<lparr>shown = [], frame = rows_of (labelled data)\<rparr>
      else Inl AttributeError)"
  by (simp add: load_data_def iloc_columns_def clean_frame_eq labelled_def)

lemma cleaned_eq:
  "cleaned data =
     (if 21 \<le> ncols data \<and> datetimelike (date_column (labelled data))
      then rows_of (labelled data) else [])"
  by (simp add: cleaned_def load_data_eq)

lemma set_rows_of:
  "set (rows_of df) = {(i, f). \<exists>r. (i, r) \<in> set df \<and> clean_row r = Some f}"
proof (induction df)
  case Nil
  show ?case by (simp add: rows_of_def)
next
  case (Cons x df)
  obtain i r where x: "x = (i, r)" by (cases x)
  have "rows_of (x # df) = (case clean_row r of None \<Rightarrow> [] | Some f \<Rightarrow> [(i, f)]) @ rows_of df"
    by (simp add: rows_of_def x)
  then show ?case using Cons.IH unfolding x
    by (auto split: option.splits)
qed

lemma labelled_member:
  "(i, r) \<in> set (labelled data) \<longleftrightarrow> i < length (cells data) \<and> r = raw_row data i"
proof
  assume "(i, r) \<in> set (labelled data)"
  then obtain j q where "(j, q) \<in> set (enumerate 0 (cells data))" "i = j" "r = select_columns q"
    unfolding labelled_def by auto
  then show "i < length (cells data) \<and> r = raw_row data i"
    by (auto simp: in_set_enumerate_eq raw_row_def)
next
  assume R: "i < length (cells data) \<and> r = raw_row data i"
  then have "(i, cells data ! i) \<in> set (enumerate 0 (cells data))"
    by (simp add: in_set_enumerate_eq)
  then have "(\<lambda>(i, r). (i, select_columns r)) (i, cells data ! i)
      \<in> (\<lambda>(i, r). (i, select_columns r)) ` set (enumerate 0 (cells data))"
    by (rule imageI)
  then show "(i, r) \<in> set (labelled data)"
    using R by (simp add: labelled_def raw_row_def)
qed

lemma cleaned_member:
  "(i, f) \<in> set (cleaned data) \<longleftrightarrow>
     21 \<le> ncols data \<and> datetimelike (date_column (labelled data)) \<and>
     i < length (cells data) \<and> clean_row (raw_row data i) = Some f"
proof (cases "21 \<le> ncols data \<and> datetimelike (date_column (labelled data))")
  case True
  then have "(i, f) \<in> set (cleaned data) \<longleftrightarrow>
      (\<exists>r. (i, r) \<in> set (labelled data) \<and> clean_row r = Some f)"
    by (simp add: cleaned_eq set_rows_of)
  also have "\<dots> \<longleftrightarrow> i < length (cells data) \<and> clean_row (raw_row data i) = Some f"
    unfolding labelled_member by blast
  finally show ?thesis using True by simp
next
  case False
  then show ?thesis by (auto simp: cleaned_eq)
qed

lemma cleaned_record:
  assumes "(i, f) \<in> set (cleaned data)"
  shows "clean_row (raw_row data i) = Some f" "i < length (cells data)" "21 \<le> ncols data"
  using assms by (simp_all add: cleaned_member)

lemma kept_iff:
  "kept data i \<longleftrightarrow>
     21 \<le> ncols data \<and> datetimelike (date_column (labelled data)) \<and>
     i < length (cells data) \<and> clean_row (raw_row data i) \<noteq> None"
proof -
  have "kept data i \<longleftrightarrow> (\<exists>f. (i, f) \<in> set (cleaned data))"
    by (force simp: kept_def image_iff)
  then show ?thesis by (auto simp: cleaned_member)
qed


lemma clean_row_Some_iff:
  "clean_row r = Some f \<longleftrightarrow>
     (\<exists>d. clean_date (Date r) = Some d \<and>
          fless (Fin 0) (clean_amount (Amount r)) \<and> fless (clean_amount (Amount r)) (Fin 1000) \<and>
          f = \<lparr>Date = d, Startup_Name = clean_text (Startup_Name r),
                Sector = clean_text (Sector r),
                City = series_replace city_aliases (clean_text (City r)),
                Investment_Type = series_replace type_aliases (clean_text (Investment_Type r)),
                Amount = clean_amount (Amount r), Year = year d, Month = period_str d\<rparr>)"
proof -
  have "\<not> isnan a" if "fless (Fin 0) a" for a
    using that by (cases a) auto
  then show ?thesis
    by (auto simp: clean_row_def Let_def split: option.splits)
qed

text \<open>
  C9. When the table has fewer than 21 columns, the column selection raises and
  \<^verbatim>\<open>load_data\<close> gives up the whole load: it reports the column mismatch through
  \<^verbatim>\<open>st.error\<close> and returns the empty frame, so no row of that table is returned. With 21
  columns or more nothing is reported: \<^verbatim>\<open>load_data\<close> returns a frame, or the date
  accessor raises.
\<close>

theorem schema_mismatch_aborts_load:
  "(ncols data < 21 \<longrightarrow> load_data (Some data) = Inr \<lparr>shown = [Column_mismatch], frame = []\<rparr>) \<and>
   (21 \<le> ncols data \<longrightarrow>
      (case load_data (Some data) of Inl e \<Rightarrow> e = AttributeError | Inr l \<Rightarrow> shown l = []))"
  by (simp add: load_data_eq)

theorem schema_mismatch_aborts_load_witness:
  "ncols narrow_table < 21 \<and>
   load_data (Some narrow_table) = Inr \<lparr>shown = [Column_mismatch], frame = []\<rparr>"
  using schema_mismatch_aborts_load [of narrow_table] by (simp add: narrow_table_def)

subsection \<open>The amount normaliser\<close>

lemma py_in_sublist: "py_in u s \<longleftrightarrow> sublist u s"
  by (induction s) (auto simp: sublist_Cons_right)

lemma py_in_iff: "py_in u s \<longleftrightarrow> (\<exists>ps ss. s = ps @ u @ ss)"
  by (simp add: py_in_sublist sublist_def)

lemma lower_char_not_upper: "c \<notin> set upper_letters \<Longrightarrow> lower_char c = c"
  by (simp add: lower_char_def upper_letters_def lower_letters_def)

lemma lower_char_upper: "c \<in> set upper_letters \<Longrightarrow> lower_char c \<in> set lower_letters"
  by (auto simp: lower_char_def upper_letters_def lower_letters_def)

lemma space_not_letter: "is_space c \<Longrightarrow> c \<notin> set upper_letters \<and> c \<notin> set lower_letters"
  by (auto simp: is_space_def upper_letters_def lower_letters_def)

lemma lower_char_of_space: "is_space c \<Longrightarrow> lower_char c = c"
  using space_not_letter lower_char_not_upper by blast

lemma dropWhile_keeps:
  "w \<noteq> [] \<Longrightarrow> \<not> P (hd w) \<Longrightarrow> \<exists>ps'. dropWhile P (ps @ w @ ss) = ps' @ w @ ss"
proof (induction ps)
  case Nil
  then show ?case by (cases w) auto
next
  case (Cons a ps)
  then show ?case by (cases "P a") (auto intro: exI[of _ "a # ps"])
qed

lemma py_strip_keeps:
  assumes "w \<noteq> []" "\<not> is_space (hd w)" "\<not> is_space (last w)"
  shows "\<exists>ps' ss'. py_strip (ps @ w @ ss) = ps' @ w @ ss'"
proof -
  obtain ps1 where a: "dropWhile is_space (ps @ w @ ss) = ps1 @ w @ ss"
    using dropWhile_keeps[of w is_space ps ss] assms(1,2) by blast
  have "rev w \<noteq> []" "\<not> is_space (hd (rev w))"
    using assms by (simp_all add: hd_rev)
  then obtain ss1 where b: "dropWhile is_space (rev ss @ rev w @ rev ps1) = ss1 @ rev w @ rev ps1"
    using dropWhile_keeps[of "rev w" is_space "rev ss" "rev ps1"] by blast
  have "py_strip (ps @ w @ ss) = ps1 @ w @ rev ss1"
    by (simp add: py_strip_def a b)
  then show ?thesis by blast
qed

lemma contains_ci_amount_text:
  assumes c: "contains_ci s u"
    and u: "u \<noteq> []" "CHR '','' \<notin> set u" "CHR ''$'' \<notin> set u"
      "\<not> is_space (hd u)" "\<not> is_space (last u)"
  shows "py_in u (amount_text s)"
proof -
  obtain ps w ss where s: "s = ps @ w @ ss" and w: "py_lower w = u"
    using c unfolding contains_ci_def by blast
  have wne: "w \<noteq> []" using w u(1) by (auto simp: py_lower_def)
  have su: "set u = lower_char ` set w" using w by (auto simp: py_lower_def)
  have nu: "CHR '','' \<notin> set upper_letters" "CHR ''$'' \<notin> set upper_letters"
    by (simp_all add: upper_letters_def)
  have c1: "CHR '','' \<notin> set w"
    using u(2) su lower_char_not_upper[OF nu(1)] by force
  have c2: "CHR ''$'' \<notin> set w"
    using u(3) su lower_char_not_upper[OF nu(2)] by force
  have hd: "\<not> is_space (hd w)"
    using u(4) w wne lower_char_of_space by (cases w) (auto simp: py_lower_def)
  have "last u = lower_char (last w)"
    using w wne by (auto simp: py_lower_def last_map)
  then have la: "\<not> is_space (last w)"
    using u(5) lower_char_of_space by metis
  have r: "remove_char (CHR ''$'') (remove_char (CHR '','') s) =
      remove_char (CHR ''$'') (remove_char (CHR '','') ps) @ w @
      remove_char (CHR ''$'') (remove_char (CHR '','') ss)"
  proof -
    have "remove_char (CHR '','') w = w" "remove_char (CHR ''$'') w = w"
      using c1 c2 by (auto simp: remove_char_def filter_id_conv)
    then show ?thesis by (simp add: s remove_char_def)
  qed
  obtain ps' ss' where "py_strip (remove_char (CHR ''$'') (remove_char (CHR '','') s)) = ps' @ w @ ss'"
    unfolding r using py_strip_keeps[OF wne hd la] by blast
  then have "amount_text s = py_lower ps' @ u @ py_lower ss'"
    using w by (simp add: amount_text_def py_lower_def)
  then show ?thesis unfolding py_in_iff by blast
qed

lemma reject_tokens_plain:
  "v \<in> set reject_tokens \<Longrightarrow>
     v \<noteq> [] \<and> CHR '','' \<notin> set v \<and> CHR ''$'' \<notin> set v \<and> \<not> is_space (hd v) \<and> \<not> is_space (last v)"
  by (auto simp: reject_tokens_def is_space_def)

lemma clean_amount_token:
  assumes "u \<in> set reject_tokens" "contains_ci s u"
  shows "clean_amount (Str s) = NaN"
proof -
  have "py_in u (amount_text s)"
    using contains_ci_amount_text[OF assms(2)] reject_tokens_plain[OF assms(1)] by simp
  then have "list_ex (\<lambda>v. py_in v (amount_text s)) reject_tokens"
    using assms(1) unfolding list_ex_iff by blast
  then show ?thesis by (simp add: Let_def)
qed

lemma contains_ci_code: "contains_ci s u \<longleftrightarrow> py_in u (py_lower s)"
proof
  assume "contains_ci s u"
  then obtain ps w ss where "s = ps @ w @ ss" "py_lower w = u"
    unfolding contains_ci_def by blast
  then have "py_lower s = py_lower ps @ u @ py_lower ss"
    by (simp add: py_lower_def)
  then show "py_in u (py_lower s)" unfolding py_in_iff by blast
next
  assume "py_in u (py_lower s)"
  then obtain ps' ss' where "map lower_char s = ps' @ u @ ss'"
    unfolding py_in_iff py_lower_def by blast
  then obtain ps r where 1: "s = ps @ r" "map lower_char r = u @ ss'"
    by (metis map_eq_append_conv)
  then obtain w ss where 2: "r = w @ ss" "map lower_char w = u"
    by (metis map_eq_append_conv)
  show "contains_ci s u"
    unfolding contains_ci_def py_lower_def using 1 2 by blast
qed

lemma clean_row_nan: "isnan (clean_amount (Amount r)) \<Longrightarrow> clean_row r = None"
  by (simp add: clean_row_def)

lemma load_token_table:
  "load_data (Some token_table) = Inr \<lparr>shown = [], frame = [(0, spec_record)]\<rparr>"
  by code_simp

text \<open>
  C3. When the text of the Amount cell holds one of the tokens \<^verbatim>\<open>lac\<close>, \<^verbatim>\<open>lakh\<close>,
  \<^verbatim>\<open>cr\<close>, \<^verbatim>\<open>unknown\<close>, \<^verbatim>\<open>n/a\<close> anywhere, in upper or lower case, the row is not in
  the cleaned dataset, whatever number the cell starts with.
\<close>

theorem reject_token_drops_record:
  assumes "i < length (cells data)" "Amount (raw_row data i) = Str s"
    and "u \<in> set reject_tokens" "contains_ci s u"
  shows "\<not> kept data i"
  using assms clean_amount_token[of u s] by (simp add: kept_iff clean_row_nan)

theorem reject_token_drops_record_witness:
  "1 < length (cells token_table) \<and> Amount (raw_row token_table 1) = Str ''5 Lakh'' \<and>
   ''lakh'' \<in> set reject_tokens \<and> contains_ci ''5 Lakh'' ''lakh'' \<and> \<not> kept token_table 1 \<and>
   load_data (Some token_table) = Inr \<lparr>shown = [], frame = [(0, spec_record)]\<rparr>"
proof -
  have 1: "1 < length (cells token_table)"
    by (simp add: token_table_def)
  have 2: "Amount (raw_row token_table 1) = Str ''5 Lakh''"
    by code_simp
  have 3: "''lakh'' \<in> set reject_tokens"
    by (simp add: reject_tokens_def)
  have 4: "contains_ci ''5 Lakh'' ''lakh''"
    unfolding contains_ci_code by code_simp
  show ?thesis
    using reject_token_drops_record [OF 1 2 3 4] 1 2 3 4 load_token_table by simp
qed


lemma load_spec_table:
  "load_data (Some spec_table) = Inr \<lparr>shown = [], frame = [(0, spec_record)]\<rparr>"
  by code_simp



subsection \<open>The date normaliser\<close>

lemma one_char_iff: "(d, r) \<in> set (one_char p s) \<longleftrightarrow> (\<exists>a. d = [a] \<and> p a \<and> s = a # r)"
  by (auto simp: one_char_def split: list.splits if_splits)

lemma two_chars_iff:
  "(d, r) \<in> set (two_chars p q s) \<longleftrightarrow> (\<exists>a b. d = [a, b] \<and> p a \<and> q b \<and> s = a # b # r)"
  by (auto simp: two_chars_def split: list.splits if_splits)

lemma re_slash_iff: "r \<in> set (re_slash s) \<longleftrightarrow> s = CHR ''/'' # r"
  by (auto simp: re_slash_def split: list.splits if_splits)

lemma re_Y_iff: "(y, r) \<in> set (re_Y s) \<longleftrightarrow> s = y @ r \<and> length y = 4 \<and> list_all is_digit y"
  by (auto simp: re_Y_def min_def)

lemma re_m_iff: "(m, r) \<in> set (re_m s) \<longleftrightarrow> s = m @ r \<and> month_group m"
proof
  assume "(m, r) \<in> set (re_m s)"
  then show "s = m @ r \<and> month_group m"
    unfolding re_m_def set_append Un_iff one_char_iff two_chars_iff
    by (elim disjE exE conjE) (simp_all add: month_group_def)
next
  assume a: "s = m @ r \<and> month_group m"
  then consider (one) x where "m = [x]" | (two) x y where "m = [x, y]"
    by (auto simp: month_group_def split: list.splits)
  then show "(m, r) \<in> set (re_m s)"
  proof cases
    case one
    then show ?thesis using a
      unfolding re_m_def set_append Un_iff one_char_iff two_chars_iff
      by (simp add: month_group_def)
  next
    case two
    then show ?thesis using a
      unfolding re_m_def set_append Un_iff one_char_iff two_chars_iff
      by (simp add: month_group_def)
  qed
qed

lemma re_d_iff: "(d, r) \<in> set (re_d s) \<longleftrightarrow> s = d @ r \<and> day_group d"
proof
  assume "(d, r) \<in> set (re_d s)"
  then show "s = d @ r \<and> day_group d"
    unfolding re_d_def set_append Un_iff one_char_iff two_chars_iff
    by (elim disjE exE conjE) (simp_all add: day_group_def)
next
  assume a: "s = d @ r \<and> day_group d"
  then consider (one) x where "d = [x]" | (two) x y where "d = [x, y]"
    by (auto simp: day_group_def split: list.splits)
  then show "(d, r) \<in> set (re_d s)"
  proof cases
    case one
    then show ?thesis using a
      unfolding re_d_def set_append Un_iff one_char_iff two_chars_iff
      by (simp add: day_group_def)
  next
    case two
    then show ?thesis using a
      unfolding re_d_def set_append Un_iff one_char_iff two_chars_iff
      by (simp add: day_group_def)
  qed
qed


lemma group_no_slash:
  "day_group d \<Longrightarrow> CHR ''/'' \<notin> set d" "month_group m \<Longrightarrow> CHR ''/'' \<notin> set m"
  by (auto simp: day_group_def month_group_def is_digit19_def is_digit_def split: list.splits)

lemma re_matches_iff:
  "(d, m, y, r) \<in> set (re_matches s) \<longleftrightarrow>
     s = d @ ''/'' @ m @ ''/'' @ y @ r \<and> day_group d \<and> month_group m \<and>
     length y = 4 \<and> list_all is_digit y"
proof -
  have "(d, m, y, r) \<in> set (re_matches s) \<longleftrightarrow>
      (\<exists>r1 r2 r3 r4. (d, r1) \<in> set (re_d s) \<and> r2 \<in> set (re_slash r1) \<and>
         (m, r3) \<in> set (re_m r2) \<and> r4 \<in> set (re_slash r3) \<and> (y, r) \<in> set (re_Y r4))"
    unfolding re_matches_def by fastforce
  also have "\<dots> \<longleftrightarrow> s = d @ ''/'' @ m @ ''/'' @ y @ r \<and> day_group d \<and> month_group m \<and>
     length y = 4 \<and> list_all is_digit y"
    unfolding re_d_iff re_m_iff re_slash_iff re_Y_iff by auto
  finally show ?thesis .
qed

lemma split_unique:
  "c \<notin> set a \<Longrightarrow> c \<notin> set a' \<Longrightarrow> a @ c # b = a' @ c # b' \<Longrightarrow> a = a' \<and> b = b'"
proof (induction a arbitrary: a')
  case Nil
  then show ?case by (cases a') auto
next
  case (Cons x a)
  then show ?case by (cases a') auto
qed

lemma re_matches_unique:
  assumes "x \<in> set (re_matches s)" "x' \<in> set (re_matches s)"
  shows "x = x'"
proof -
  obtain d m y r where x: "x = (d, m, y, r)" by (cases x)
  obtain d' m' y' r' where x': "x' = (d', m', y', r')" by (cases x')
  have a: "s = d @ CHR ''/'' # (m @ CHR ''/'' # (y @ r))" "day_group d" "month_group m" "length y = 4"
    using assms(1) unfolding x re_matches_iff by simp_all
  have b: "s = d' @ CHR ''/'' # (m' @ CHR ''/'' # (y' @ r'))" "day_group d'" "month_group m'" "length y' = 4"
    using assms(2) unfolding x' re_matches_iff by simp_all
  have e: "d @ CHR ''/'' # (m @ CHR ''/'' # (y @ r)) = d' @ CHR ''/'' # (m' @ CHR ''/'' # (y' @ r'))"
    using a(1) b(1) by simp
  have 1: "d = d' \<and> m @ CHR ''/'' # (y @ r) = m' @ CHR ''/'' # (y' @ r')"
    by (rule split_unique[OF group_no_slash(1)[OF a(2)] group_no_slash(1)[OF b(2)] e])
  then have e2: "m @ CHR ''/'' # (y @ r) = m' @ CHR ''/'' # (y' @ r')"
    by simp
  have 2: "m = m' \<and> y @ r = y' @ r'"
    by (rule split_unique[OF group_no_slash(2)[OF a(3)] group_no_slash(2)[OF b(3)] e2])
  have "y = y' \<and> r = r'"
    using 2 a(4) b(4) by (simp add: append_eq_append_conv)
  then show ?thesis using 1 2 x x' by simp
qed

lemma re_match_Some_iff: "re_match s = Some x \<longleftrightarrow> x \<in> set (re_matches s)"
proof
  assume "re_match s = Some x"
  then show "x \<in> set (re_matches s)"
    by (auto simp: re_match_def split: list.splits)
next
  assume a: "x \<in> set (re_matches s)"
  then obtain z zs where z: "re_matches s = z # zs"
    by (cases "re_matches s") auto
  then have "z = x" using re_matches_unique[OF _ a, of z] by simp
  then show "re_match s = Some x" by (simp add: re_match_def z)
qed


lemma digit_not_space: "is_digit c \<Longrightarrow> \<not> is_space c"
  by (auto simp: is_digit_def is_space_def)

lemma py_strip_id:
  assumes "s = [] \<or> (\<not> is_space (hd s) \<and> \<not> is_space (last s))"
  shows "py_strip s = s"
proof (cases "s = []")
  case True
  then show ?thesis by (simp add: py_strip_def)
next
  case False
  then have 1: "dropWhile is_space s = s"
    using assms by (simp add: dropWhile_eq_self_iff)
  have 2: "dropWhile is_space (rev s) = rev s"
    using assms False by (simp add: dropWhile_eq_self_iff hd_rev)
  show ?thesis by (simp add: py_strip_def 1 2)
qed

lemma py_int_digits: "s \<noteq> [] \<Longrightarrow> list_all is_digit s \<Longrightarrow> py_int s = int_of_digits s"
proof -
  assume a: "s \<noteq> []" "list_all is_digit s"
  then have "is_digit (hd s)" "is_digit (last s)"
    by (simp_all add: list_all_iff)
  then show ?thesis
    unfolding py_int_def using py_strip_id[of s] digit_not_space by simp
qed

lemma py_strip_hd: "py_strip s = [] \<or> \<not> is_space (hd (py_strip s))"
proof -
  define t where "t = dropWhile is_space s"
  have t: "t = [] \<or> \<not> is_space (hd t)"
    unfolding t_def using hd_dropWhile[of is_space s] by blast
  have "t = py_strip s @ rev (takeWhile is_space (rev t))"
  proof -
    have "rev (takeWhile is_space (rev t) @ dropWhile is_space (rev t)) = t"
      by (simp only: takeWhile_dropWhile_id rev_rev_ident)
    then have "rev (dropWhile is_space (rev t)) @ rev (takeWhile is_space (rev t)) = t"
      by (simp only: rev_append)
    then show ?thesis unfolding py_strip_def t_def by (rule sym)
  qed
  then have "py_strip s \<noteq> [] \<Longrightarrow> hd t = hd (py_strip s) \<and> t \<noteq> []"
    by (metis hd_append2 append_is_Nil_conv)
  then show ?thesis using t by auto
qed


lemma short_text_cases [consumes 1, case_names one two]:
  assumes "length s = 1 \<or> length s = 2"
  obtains (one) a where "s = [a]" | (two) a b where "s = [a, b]"
  using assms by (cases s; cases "tl s"; cases "tl (tl s)") auto

lemma digit_facts:
  assumes "is_digit c"
  shows "0 \<le> digit_val c" "digit_val c \<le> 9"
    "c = CHR ''0'' \<longleftrightarrow> digit_val c = 0" "c = CHR ''1'' \<longleftrightarrow> digit_val c = 1"
    "c = CHR ''2'' \<longleftrightarrow> digit_val c = 2" "c = CHR ''3'' \<longleftrightarrow> digit_val c = 3"
    "is_digit19 c \<longleftrightarrow> 1 \<le> digit_val c" "c \<noteq> CHR '' ''"
  using assms by (auto simp: is_digit_def is_digit19_def digit_val_def)

lemma is_digit19_digit: "is_digit19 c \<Longrightarrow> is_digit c"
  by (auto simp: is_digit_def is_digit19_def)

lemma day_pair:
  assumes "is_digit a" "is_digit b"
  shows "day_group [a, b] \<longleftrightarrow>
    1 \<le> 10 * digit_val a + digit_val b \<and> 10 * digit_val a + digit_val b \<le> 31"
  using digit_facts(1,2)[OF assms(1)] digit_facts(1,2)[OF assms(2)] assms(2)
  by (simp add: day_group_def digit_facts(3-8)[OF assms(1)] digit_facts(3-8)[OF assms(2)]) arith

lemma day_single:
  assumes "is_digit a"
  shows "day_group [a] \<longleftrightarrow> 1 \<le> digit_val a \<and> digit_val a \<le> 31"
  using digit_facts(1,2)[OF assms]
  by (simp add: day_group_def digit_facts(3-8)[OF assms])

lemma month_pair:
  assumes "is_digit a" "is_digit b"
  shows "month_group [a, b] \<longleftrightarrow>
    1 \<le> 10 * digit_val a + digit_val b \<and> 10 * digit_val a + digit_val b \<le> 12"
  using digit_facts(1,2)[OF assms(1)] digit_facts(1,2)[OF assms(2)]
  by (simp add: month_group_def digit_facts(3-8)[OF assms(1)] digit_facts(3-8)[OF assms(2)]) arith

lemma month_single:
  assumes "is_digit a"
  shows "month_group [a] \<longleftrightarrow> 1 \<le> digit_val a \<and> digit_val a \<le> 12"
  using digit_facts(1,2)[OF assms]
  by (simp add: month_group_def digit_facts(3-8)[OF assms])

lemma group_digits:
  "day_group d \<Longrightarrow> hd d \<noteq> CHR '' '' \<Longrightarrow> list_all is_digit d \<and> (length d = 1 \<or> length d = 2)"
  "month_group m \<Longrightarrow> list_all is_digit m \<and> (length m = 1 \<or> length m = 2)"
  by (auto simp: day_group_def month_group_def is_digit19_def is_digit_def split: list.splits)

lemma int_of_digits_short:
  "int_of_digits [a] = digit_val a" "int_of_digits [a, b] = 10 * digit_val a + digit_val b"
  by (simp_all add: int_of_digits_def)

lemma day_group_iff: "day_group d \<and> hd d \<noteq> CHR '' '' \<longleftrightarrow> number_text 1 31 d"
proof -
  have "day_group d \<longleftrightarrow> number_text 1 31 d"
    if "list_all is_digit d" "length d = 1 \<or> length d = 2"
    using that(2,1)
    by (cases rule: short_text_cases)
      (simp_all add: number_text_def day_pair day_single int_of_digits_short)
  moreover have "hd d \<noteq> CHR '' ''" if "list_all is_digit d" "length d = 1 \<or> length d = 2"
    using that(2,1) by (cases rule: short_text_cases) (auto simp: digit_facts(8))
  ultimately show ?thesis
    using group_digits(1)[of d] by (auto simp: number_text_def)
qed

lemma month_group_iff: "month_group m \<longleftrightarrow> number_text 1 12 m"
proof -
  have "month_group m \<longleftrightarrow> number_text 1 12 m"
    if "list_all is_digit m" "length m = 1 \<or> length m = 2"
    using that(2,1)
    by (cases rule: short_text_cases)
      (simp_all add: number_text_def month_pair month_single int_of_digits_short)
  then show ?thesis
    using group_digits(2)[of m] by (auto simp: number_text_def)
qed


lemma new_datetime_iff:
  "new_datetime y m d = Some dt \<longleftrightarrow>
     dt = \<lparr>year = y, month = m, day = d\<rparr> \<and> valid_date \<lparr>year = y, month = m, day = d\<rparr>"
  by (auto simp: new_datetime_def valid_date_def)

lemma strptime_unfold:
  "strptime s = Some dt \<longleftrightarrow>
     (\<exists>d m y. (d, m, y, []) \<in> set (re_matches s) \<and>
        new_datetime (py_int y) (py_int m) (py_int d) = Some dt)"
  unfolding strptime_def re_match_Some_iff[symmetric]
  by (auto split: option.splits if_splits)

lemma strptime_Some_iff:
  assumes "s = [] \<or> hd s \<noteq> CHR '' ''"
  shows "strptime s = Some dt \<longleftrightarrow>
     (\<exists>d m y. s = d @ ''/'' @ m @ ''/'' @ y \<and> number_text 1 31 d \<and> number_text 1 12 m \<and>
        length y = 4 \<and> list_all is_digit y \<and>
        dt = \<lparr>year = int_of_digits y, month = int_of_digits m, day = int_of_digits d\<rparr> \<and>
        valid_date dt)"
    (is "?L \<longleftrightarrow> ?R")
proof
  assume ?L
  then obtain d m y where a: "(d, m, y, []) \<in> set (re_matches s)"
    and n: "new_datetime (py_int y) (py_int m) (py_int d) = Some dt"
    unfolding strptime_unfold by blast
  have b: "s = d @ ''/'' @ m @ ''/'' @ y" "day_group d" "month_group m" "length y = 4"
    "list_all is_digit y"
    using a unfolding re_matches_iff by simp_all
  have "d \<noteq> []" using b(2) by (auto simp: day_group_def)
  then have "hd d \<noteq> CHR '' ''" using assms b(1) by auto
  then have nd: "number_text 1 31 d" using b(2) day_group_iff by blast
  have nm: "number_text 1 12 m" using b(3) month_group_iff by blast
  have i: "py_int d = int_of_digits d" "py_int m = int_of_digits m" "py_int y = int_of_digits y"
    using nd nm b(4,5) by (auto simp: number_text_def intro!: py_int_digits)
  show ?R
    using b(1,4,5) nd nm n unfolding i new_datetime_iff by blast
next
  assume ?R
  then obtain d m y where b: "s = d @ ''/'' @ m @ ''/'' @ y" "number_text 1 31 d"
    "number_text 1 12 m" "length y = 4" "list_all is_digit y"
    "dt = \<lparr>year = int_of_digits y, month = int_of_digits m, day = int_of_digits d\<rparr>"
    "valid_date dt"
    by blast
  have a: "(d, m, y, []) \<in> set (re_matches s)"
    unfolding re_matches_iff using b(1-5) day_group_iff month_group_iff by auto
  have i: "py_int d = int_of_digits d" "py_int m = int_of_digits m" "py_int y = int_of_digits y"
    using b(2-5) by (auto simp: number_text_def intro!: py_int_digits)
  have "new_datetime (py_int y) (py_int m) (py_int d) = Some dt"
    unfolding i new_datetime_iff using b(6,7) by simp
  then show ?L unfolding strptime_unfold using a by blast
qed

lemma strptime_dmy_text:
  assumes "s = [] \<or> hd s \<noteq> CHR '' ''"
  shows "strptime s \<noteq> None \<longleftrightarrow> dmy_text s"
proof -
  have "strptime s \<noteq> None \<longleftrightarrow> (\<exists>dt. strptime s = Some dt)" by auto
  also have "\<dots> \<longleftrightarrow> dmy_text s"
    unfolding strptime_Some_iff[OF assms] dmy_text_def by auto
  finally show ?thesis .
qed


lemma py_strip_padded:
  assumes "list_all is_space l" "list_all is_space r"
    and "t \<noteq> []" "\<not> is_space (hd t)" "\<not> is_space (last t)"
  shows "py_strip (l @ t @ r) = t"
proof -
  have 1: "dropWhile is_space (l @ t @ r) = t @ r"
  proof -
    have "dropWhile is_space (l @ t @ r) = dropWhile is_space (t @ r)"
      by (rule dropWhile_append2) (use assms(1) in \<open>simp add: list_all_iff\<close>)
    also have "\<dots> = t @ r"
      using assms(3,4) by (cases t) auto
    finally show ?thesis .
  qed
  have 2: "dropWhile is_space (rev r @ rev t) = rev t"
  proof -
    have "dropWhile is_space (rev r @ rev t) = dropWhile is_space (rev t)"
      by (rule dropWhile_append2) (use assms(2) in \<open>simp add: list_all_iff\<close>)
    also have "\<dots> = rev t"
      using assms(3,5) by (cases "rev t") (auto simp: hd_rev[symmetric])
    finally show ?thesis .
  qed
  show ?thesis by (simp add: py_strip_def 1 2)
qed

lemma py_strip_decomp:
  "\<exists>l r. s = l @ py_strip s @ r \<and> list_all is_space l \<and> list_all is_space r"
proof -
  define t where "t = dropWhile is_space s"
  have a: "s = takeWhile is_space s @ t"
    unfolding t_def by simp
  have "rev (takeWhile is_space (rev t) @ dropWhile is_space (rev t)) = t"
    by (simp only: takeWhile_dropWhile_id rev_rev_ident)
  then have b: "t = py_strip s @ rev (takeWhile is_space (rev t))"
    unfolding py_strip_def t_def by (simp only: rev_append)
  have c: "list_all is_space (takeWhile is_space s)"
    "list_all is_space (rev (takeWhile is_space (rev t)))"
    by (auto simp: list_all_iff dest: set_takeWhileD)
  have "s = takeWhile is_space s @ py_strip s @ rev (takeWhile is_space (rev t))"
    using a b by simp
  then show ?thesis using c by blast
qed

lemma dmy_text_ends:
  assumes "dmy_text t"
  shows "t \<noteq> [] \<and> \<not> is_space (hd t) \<and> \<not> is_space (last t)"
proof -
  obtain d m y where t: "t = d @ ''/'' @ m @ ''/'' @ y" and d: "number_text 1 31 d"
    and y: "length y = 4" "list_all is_digit y"
    using assms unfolding dmy_text_def by blast
  have dn: "d \<noteq> []" "list_all is_digit d"
    using d by (auto simp: number_text_def)
  have yn: "y \<noteq> []" using y(1) by auto
  have "hd t = hd d" using t dn(1) by simp
  moreover have "is_digit (hd d)" using dn by (cases d) simp_all
  moreover have "last t = last y" using t yn by simp
  moreover have "is_digit (last y)" using yn y(2) by (simp add: list_all_iff)
  ultimately show ?thesis using digit_not_space t by auto
qed

lemma padded_dmy_text_iff: "padded_dmy_text s \<longleftrightarrow> dmy_text (py_strip s)"
proof
  assume "padded_dmy_text s"
  then obtain l t r where s: "s = l @ t @ r" "list_all is_space l" "list_all is_space r"
    and t: "dmy_text t"
    unfolding padded_dmy_text_def by blast
  have "py_strip s = t"
    unfolding s(1) using py_strip_padded[OF s(2,3)] dmy_text_ends[OF t] by blast
  then show "dmy_text (py_strip s)" using t by simp
next
  assume "dmy_text (py_strip s)"
  then show "padded_dmy_text s"
    unfolding padded_dmy_text_def using py_strip_decomp[of s] by blast
qed

lemma clean_date_iff: "clean_date c \<noteq> None \<longleftrightarrow> padded_dmy_text (py_str c)"
proof -
  have "is_space (CHR '' '')" by (simp add: is_space_def)
  then have "py_strip (py_str c) = [] \<or> hd (py_strip (py_str c)) \<noteq> CHR '' ''"
    using py_strip_hd[of "py_str c"] by metis
  then have "clean_date c \<noteq> None \<longleftrightarrow> dmy_text (py_strip (py_str c))"
    unfolding clean_date_def by (rule strptime_dmy_text)
  then show ?thesis by (simp add: padded_dmy_text_iff)
qed

lemma clean_row_undated: "clean_date (Date r) = None \<Longrightarrow> clean_row r = None"
  by (simp add: clean_row_def Let_def)

lemma load_undated_table:
  "load_data (Some undated_table) = Inr \<lparr>shown = [], frame = [(0, spec_record)]\<rparr>"
  by code_simp

lemma load_short_date_table:
  "load_data (Some short_date_table) = Inr \<lparr>shown = [], frame = [(0, spec_record)]\<rparr>"
  by code_simp

text \<open>
  C2, as the code has it. The text of the Date cell is trimmed first, and \<^verbatim>\<open>%d\<close> and
  \<^verbatim>\<open>%m\<close> match one digit as well as two. When the text is not, between white space, a
  day of one or two digits, a slash, a month of one or two digits, a slash and a year of
  four digits that together are a date of the calendar, the row is not in the cleaned
  dataset. The cell \<^verbatim>\<open>04/01/2015\<close> parses to 4 January 2015.
\<close>

theorem unparsed_date_drops_record:
  assumes "i < length (cells data)" "\<not> padded_dmy_text (py_str (Date (raw_row data i)))"
  shows "\<not> kept data i \<and>
         clean_date (Str ''04/01/2015'') = Some \<lparr>year = 2015, month = 1, day = 4\<rparr>"
proof -
  have "clean_date (Date (raw_row data i)) = None"
    using assms(2) clean_date_iff by blast
  then have "\<not> kept data i"
    by (simp add: kept_iff clean_row_undated)
  moreover have "clean_date (Str ''04/01/2015'') = Some \<lparr>year = 2015, month = 1, day = 4\<rparr>"
    by code_simp
  ultimately show ?thesis by simp
qed

theorem unparsed_date_drops_record_witness:
  "1 < length (cells undated_table) \<and> Date (raw_row undated_table 1) = Str ''2015-01-05'' \<and>
   \<not> padded_dmy_text ''2015-01-05'' \<and> \<not> kept undated_table 1 \<and>
   load_data (Some undated_table) = Inr \<lparr>shown = [], frame = [(0, spec_record)]\<rparr>"
proof -
  have 1: "1 < length (cells undated_table)"
    by (simp add: undated_table_def)
  have 2: "Date (raw_row undated_table 1) = Str ''2015-01-05''"
    by code_simp
  have "clean_date (Str ''2015-01-05'') = None"
    by code_simp
  then have 3: "\<not> padded_dmy_text ''2015-01-05''"
    using clean_date_iff[of "Str ''2015-01-05''"] by simp
  have "\<not> padded_dmy_text (py_str (Date (raw_row undated_table 1)))"
    using 2 3 by simp
  then show ?thesis
    using unparsed_date_drops_record [OF 1] 1 2 3 load_undated_table by simp
qed

text \<open>
  C2, as it is stated, fails: the cell \<^verbatim>\<open>4/1/2015\<close> is not of the form
  \<^verbatim>\<open>DD/MM/YYYY\<close>, and its row is in the cleaned dataset, dated 4 January 2015.
\<close>

theorem short_date_row_kept:
  "Date (raw_row short_date_table 0) = Str ''4/1/2015'' \<and> \<not> strict_ddmmyyyy ''4/1/2015'' \<and>
   kept short_date_table 0 \<and>
   load_data (Some short_date_table) = Inr \<lparr>shown = [], frame = [(0, spec_record)]\<rparr>"
proof -
  have 1: "Date (raw_row short_date_table 0) = Str ''4/1/2015''"
    by code_simp
  have 2: "\<not> strict_ddmmyyyy ''4/1/2015''"
    by (simp add: strict_ddmmyyyy_def)
  have "cleaned short_date_table = [(0, spec_record)]"
    using load_short_date_table by (simp add: cleaned_def)
  then have 3: "kept short_date_table 0"
    by (simp add: kept_def)
  show ?thesis using 1 2 3 load_short_date_table by simp
qed

subsection \<open>Year and month of a record\<close>

lemma digit_char_digit:
  assumes "0 \<le> d" "d < 10"
  shows "is_digit (digit_char d)" "digit_val (digit_char d) = d" "digit_char d \<noteq> CHR ''-''"
proof -
  have "d = 0 \<or> d = 1 \<or> d = 2 \<or> d = 3 \<or> d = 4 \<or> d = 5 \<or> d = 6 \<or> d = 7 \<or> d = 8 \<or> d = 9"
    using assms by arith
  then show "is_digit (digit_char d)" "digit_val (digit_char d) = d" "digit_char d \<noteq> CHR ''-''"
    by (auto simp: digit_char_def is_digit_def digit_val_def)
qed

lemma int_of_digits_snoc: "int_of_digits (ds @ [c]) = 10 * int_of_digits ds + digit_val c"
  by (simp add: int_of_digits_def)

lemma digits_of_value: "0 \<le> n \<Longrightarrow> int_of_digits (digits_of n) = n \<and> CHR ''-'' \<notin> set (digits_of n)"
proof (induction n rule: digits_of.induct)
  case (1 n)
  show ?case
  proof (cases "n < 10")
    case True
    then show ?thesis
      using "1.prems" digit_char_digit[of n]
      by (subst (1 2) digits_of.simps) (simp add: int_of_digits_def)
  next
    case False
    then have "int_of_digits (digits_of (n div 10)) = n div 10"
      "CHR ''-'' \<notin> set (digits_of (n div 10))"
      using "1.IH" "1.prems" by simp_all
    moreover have "digit_val (digit_char (n mod 10)) = n mod 10" "digit_char (n mod 10) \<noteq> CHR ''-''"
      using digit_char_digit[of "n mod 10"] by simp_all
    ultimately show ?thesis
      using False by (subst (1 2) digits_of.simps) (simp add: int_of_digits_snoc)
  qed
qed

lemma int_of_digits_zeros: "int_of_digits (replicate k (CHR ''0'') @ ds) = int_of_digits ds"
proof -
  have "foldl (\<lambda>a c. 10 * a + digit_val c) 0 (replicate k (CHR ''0'')) = 0"
    by (induction k) (simp_all add: digit_val_def)
  then show ?thesis by (simp add: int_of_digits_def)
qed

lemma period_year_pad:
  assumes "CHR ''-'' \<notin> set ds"
  shows "period_year (zero_pad 4 ds @ ''-'' @ ms) = int_of_digits ds"
proof -
  have n: "\<And>c. c \<in> set (zero_pad 4 ds) \<Longrightarrow> c \<noteq> CHR ''-''"
    using assms by auto
  have "takeWhile (\<lambda>c. c \<noteq> CHR ''-'') (zero_pad 4 ds @ CHR ''-'' # ms) = zero_pad 4 ds"
    using takeWhile_append2[of "zero_pad 4 ds" "\<lambda>c. c \<noteq> CHR ''-''" "CHR ''-'' # ms", OF n]
    by simp
  then have "period_year (zero_pad 4 ds @ ''-'' @ ms) = int_of_digits (zero_pad 4 ds)"
    by (simp add: period_year_def)
  then show ?thesis by (simp add: int_of_digits_zeros)
qed

lemma period_year_str:
  assumes "0 \<le> year d"
  shows "period_year (period_str d) = year d"
  unfolding period_str_def
  using digits_of_value[OF assms] period_year_pad[of "digits_of (year d)"] by simp

lemma strptime_valid: "strptime s = Some dt \<Longrightarrow> valid_date dt"
  by (auto simp: strptime_def new_datetime_iff split: option.splits if_splits)

lemma clean_row_fields:
  assumes "clean_row r = Some f"
  shows "clean_date (Date r) = Some (Date f)" "Year f = year (Date f)"
    "Month f = period_str (Date f)" "Amount f = clean_amount (Amount r)"
    "Startup_Name f = clean_text (Startup_Name r)" "Sector f = clean_text (Sector r)"
    "City f = series_replace city_aliases (clean_text (City r))"
    "Investment_Type f = series_replace type_aliases (clean_text (Investment_Type r))"
    "fless (Fin 0) (Amount f)" "fless (Amount f) (Fin 1000)"
  using assms unfolding clean_row_Some_iff by auto

lemma cleaned_spec_table: "cleaned spec_table = [(0, spec_record)]"
  using load_spec_table by (simp add: cleaned_def)

text \<open>
  C10. In every record of the cleaned dataset the \<^verbatim>\<open>Year\<close> is the year that the text of
  \<^verbatim>\<open>Month\<close> starts with: both are taken from the parsed date of the record.
\<close>

theorem year_agrees_with_period:
  assumes "(i, f) \<in> set (cleaned data)"
  shows "period_year (Month f) = Year f \<and> Year f = year (Date f) \<and> Month f = period_str (Date f)"
proof -
  note r = clean_row_fields[OF cleaned_record(1)[OF assms]]
  have "valid_date (Date f)" using r(1) strptime_valid by (simp add: clean_date_def)
  then have "0 \<le> year (Date f)" by (simp add: valid_date_def)
  then show ?thesis using r(2,3) period_year_str by simp
qed

theorem year_agrees_with_period_witness:
  "(0, spec_record) \<in> set (cleaned spec_table) \<and>
   period_year (Month spec_record) = Year spec_record \<and> Year spec_record = 2015 \<and>
   Month spec_record = ''2015-01''"
proof -
  have 1: "(0, spec_record) \<in> set (cleaned spec_table)"
    by (simp add: cleaned_spec_table)
  have 2: "Year spec_record = 2015" "Month spec_record = ''2015-01''"
    by (simp_all add: spec_record_def)
  have "period_year (Month spec_record) = Year spec_record"
    using year_agrees_with_period [OF 1] by (rule conjunct1)
  then show ?thesis
    using 1 2 by simp
qed

end
